theory Spec2Isabelle
  imports Main
begin

section \<open>Values exchanged with the Oracle VM Manager\<close>

text \<open>
  The module \<^verbatim>\<open>library/ovm_vm.py\<close> talks JSON over HTTP. A parsed JSON document
  is a Python value: \<^verbatim>\<open>None\<close>, a bool, an int, a string, a list or a dict. A dict is
  kept as an association list in which the first binding of a key is the one that
  counts. Fractional numbers are left out.
\<close>

datatype json =
    JNull
  | JBool bool
  | JInt int
  | JStr string
  | JList "json list"
  | JObj "(string \<times> json) list"

text \<open>The exceptions the module can let escape.\<close>

datatype py_error = KeyError | TypeError | AssertionError | RequestError

text \<open>\<^verbatim>\<open>v[k]\<close> for a string key: only a dict can be subscripted by a string.\<close>

fun py_getitem :: "json \<Rightarrow> string \<Rightarrow> py_error + json" where
  "py_getitem (JObj kvs) k = (case map_of kvs k of None \<Rightarrow> Inl KeyError | Some v \<Rightarrow> Inr v)"
| "py_getitem _ k = Inl TypeError"

text \<open>\<^verbatim>\<open>v[k1][k2]\<close>, as in \<^verbatim>\<open>result['id']['value']\<close>.\<close>

definition py_getitem2 :: "json \<Rightarrow> string \<Rightarrow> string \<Rightarrow> py_error + json" where
  "py_getitem2 v k1 k2 = (case py_getitem v k1 of Inl e \<Rightarrow> Inl e | Inr u \<Rightarrow> py_getitem u k2)"

text \<open>The truth value of \<^verbatim>\<open>if v:\<close>.\<close>

fun truthy :: "json \<Rightarrow> bool" where
  "truthy JNull = False"
| "truthy (JBool b) = b"
| "truthy (JInt n) = (n \<noteq> 0)"
| "truthy (JStr s) = (s \<noteq> [])"
| "truthy (JList xs) = (xs \<noteq> [])"
| "truthy (JObj kvs) = (kvs \<noteq> [])"

text \<open>
  \<^verbatim>\<open>a == b\<close> on parsed JSON: \<^verbatim>\<open>True\<close> and \<^verbatim>\<open>False\<close> compare as the integers 1 and 0,
  lists compare element by element, dicts compare as finite maps.
\<close>

function py_eq :: "json \<Rightarrow> json \<Rightarrow> bool" where
  "py_eq JNull b = (b = JNull)"
| "py_eq (JBool x) b =
     (case b of JBool y \<Rightarrow> x = y | JInt n \<Rightarrow> n = (if x then 1 else 0) | _ \<Rightarrow> False)"
| "py_eq (JInt m) b =
     (case b of JBool y \<Rightarrow> m = (if y then 1 else 0) | JInt n \<Rightarrow> m = n | _ \<Rightarrow> False)"
| "py_eq (JStr s) b = (b = JStr s)"
| "py_eq (JList xs) b =
     (case b of JList ys \<Rightarrow> length xs = length ys \<and> (\<forall>(x, y) \<in> set (zip xs ys). py_eq x y)
      | _ \<Rightarrow> False)"
| "py_eq (JObj kvs) b =
     (case b of
        JObj kvs' \<Rightarrow>
          set (map fst kvs) = set (map fst kvs') \<and>
          (\<forall>(k, v) \<in> set kvs.
             map_of kvs k = Some v \<longrightarrow>
             (case map_of kvs' k of None \<Rightarrow> False | Some v' \<Rightarrow> py_eq v v'))
      | _ \<Rightarrow> False)"
  by pat_completeness auto
termination
proof (relation "measure (\<lambda>(a, b). size a)", goal_cases)
  case 1
  show ?case by simp
next
  case (2 xs b ys z x y)
  then have "x \<in> set xs" by (auto dest: set_zip_leftD)
  then have "size x < Suc (size_list size xs)"
    by (induction xs) auto
  then show ?case by simp
next
  case (3 kvs b kvs' z k v v')
  then have "(k, v) \<in> set kvs" by simp
  then have "size v < Suc (size_list (size_prod (\<lambda>_. 0) size) kvs)"
    by (induction kvs) auto
  then show ?case by simp
qed

text \<open>
  What a \<^verbatim>\<open>for\<close> loop sees of a value: the elements of a list, the keys of a dict in
  the order of their first binding, the characters of a string; anything else is not
  iterable.
\<close>

fun py_iter :: "json \<Rightarrow> py_error + json list" where
  "py_iter (JList xs) = Inr xs"
| "py_iter (JObj kvs) = Inr (map JStr (rev (remdups (rev (map fst kvs)))))"
| "py_iter (JStr s) = Inr (map (\<lambda>c. JStr [c]) s)"
| "py_iter _ = Inl TypeError"

text \<open>\<^verbatim>\<open>s + v\<close> for a string \<open>s\<close>: the right operand has to be a string too.\<close>

fun py_add_str :: "string \<Rightarrow> json \<Rightarrow> py_error + string" where
  "py_add_str s (JStr t) = Inr (s @ t)"
| "py_add_str s _ = Inl TypeError"


section \<open>The remote manager and the HTTP session\<close>

text \<open>
  Every method of \<^verbatim>\<open>OVMRestClient\<close> sends one HTTP request and parses the answer.
  The state of a run is the list of requests sent so far, oldest first. The session
  stands for the remote manager: it maps that list, the request being answered last,
  to the parsed answer, or to \<open>None\<close> when the call or the parsing raises.
  The body of a POST or PUT is recorded as the value handed to \<^verbatim>\<open>json.dumps\<close>.
  The one-second \<^verbatim>\<open>time.sleep\<close> before each poll leaves no trace in this state.
\<close>

datatype request = GET string | POST string json | PUT string json | DELETE string

record OVMRestClient =
  session :: "request list \<Rightarrow> json option"
  base_uri :: string

type_synonym 'a io = "(py_error + 'a) \<times> request list"

definition send :: "OVMRestClient \<Rightarrow> request \<Rightarrow> request list \<Rightarrow> json io" where
  "send c req log =
     (case session c (log @ [req]) of
        None \<Rightarrow> (Inl RequestError, log @ [req])
      | Some j \<Rightarrow> (Inr j, log @ [req]))"

text \<open>
  Sequencing: an exception ends the run with the requests sent so far; \<open>None\<close> is a
  run that never returns.
\<close>

fun bind_run :: "'a io option \<Rightarrow> ('a \<Rightarrow> request list \<Rightarrow> 'b io option) \<Rightarrow> 'b io option" where
  "bind_run None k = None"
| "bind_run (Some (Inl e, log)) k = Some (Inl e, log)"
| "bind_run (Some (Inr x, log)) k = k x log"

subsection \<open>\<^verbatim>\<open>class OVMRestClient\<close>\<close>

definition OVMRestClient_create :: "OVMRestClient \<Rightarrow> string \<Rightarrow> json \<Rightarrow> request list \<Rightarrow> json io" where
  "OVMRestClient_create c object_type data log =
     send c (POST (base_uri c @ ''/'' @ object_type) data) log"

definition OVMRestClient_get :: "OVMRestClient \<Rightarrow> string \<Rightarrow> json \<Rightarrow> request list \<Rightarrow> json io" where
  "OVMRestClient_get c object_type object_id log =
     (case py_add_str (base_uri c @ ''/'' @ object_type @ ''/'') object_id of
        Inl e \<Rightarrow> (Inl e, log)
      | Inr url \<Rightarrow> send c (GET url) log)"

definition OVMRestClient_delete :: "OVMRestClient \<Rightarrow> string \<Rightarrow> json \<Rightarrow> request list \<Rightarrow> json io" where
  "OVMRestClient_delete c object_type object_id log =
     (case py_add_str (base_uri c @ ''/'' @ object_type @ ''/'') object_id of
        Inl e \<Rightarrow> (Inl e, log)
      | Inr url \<Rightarrow> send c (DELETE url) log)"

definition OVMRestClient_create_child ::
  "OVMRestClient \<Rightarrow> string \<Rightarrow> json \<Rightarrow> string \<Rightarrow> json \<Rightarrow> request list \<Rightarrow> json io" where
  "OVMRestClient_create_child c object_type object_id child_type data log =
     (case py_add_str (base_uri c @ ''/'' @ object_type @ ''/'') object_id of
        Inl e \<Rightarrow> (Inl e, log)
      | Inr url \<Rightarrow> send c (POST (url @ ''/'' @ child_type) data) log)"

definition OVMRestClient_update_child ::
  "OVMRestClient \<Rightarrow> string \<Rightarrow> json \<Rightarrow> string \<Rightarrow> json \<Rightarrow> request list \<Rightarrow> json io" where
  "OVMRestClient_update_child c object_type object_id child_type data log =
     (case py_add_str (base_uri c @ ''/'' @ object_type @ ''/'') object_id of
        Inl e \<Rightarrow> (Inl e, log)
      | Inr url \<Rightarrow> send c (PUT (url @ ''/'' @ child_type) data) log)"

text \<open>
  The loop of \<^verbatim>\<open>get_id_for_name\<close> over the parsed listing: the first element whose
  \<^verbatim>\<open>'name'\<close> equals the argument is returned, \<^verbatim>\<open>None\<close> (\<^const>\<open>JNull\<close>) when the loop
  runs out.
\<close>

fun get_id_for_name_loop :: "json list \<Rightarrow> json \<Rightarrow> py_error + json" where
  "get_id_for_name_loop [] object_name = Inr JNull"
| "get_id_for_name_loop (element # rest) object_name =
     (case py_getitem element ''name'' of
        Inl e \<Rightarrow> Inl e
      | Inr n \<Rightarrow> if py_eq n object_name then Inr element
                else get_id_for_name_loop rest object_name)"

definition OVMRestClient_get_id_for_name ::
  "OVMRestClient \<Rightarrow> string \<Rightarrow> json \<Rightarrow> request list \<Rightarrow> json io" where
  "OVMRestClient_get_id_for_name c object_type object_name log =
     (case send c (GET (base_uri c @ ''/'' @ object_type @ ''/id'')) log of
        (Inl e, log1) \<Rightarrow> (Inl e, log1)
      | (Inr listing, log1) \<Rightarrow>
          (case py_iter listing of
             Inl e \<Rightarrow> (Inl e, log1)
           | Inr elements \<Rightarrow> (get_id_for_name_loop elements object_name, log1)))"

definition OVMRestClient_get_ids :: "OVMRestClient \<Rightarrow> string \<Rightarrow> request list \<Rightarrow> json io" where
  "OVMRestClient_get_ids c object_type log = send c (GET (base_uri c @ ''/'' @ object_type)) log"

subsection \<open>\<^verbatim>\<open>monitor_job\<close>\<close>

text \<open>
  The result dict of an operation. A key that the dict does not have is \<open>None\<close>.
\<close>

record result =
  changed :: "bool option"
  failed :: "bool option"
  msg :: "string option"
  resultId :: "json option"

text \<open>
  What one round of the \<^verbatim>\<open>while True\<close> loop decides once the job is fetched:
  go round again (\<^verbatim>\<open>continue\<close>, or the end of the loop body), leave the loop
  (\<^verbatim>\<open>break\<close>), or return a dict. The conversion that \<^verbatim>\<open>%s\<close> applies to its argument
  is the parameter \<open>str_of\<close>.
\<close>

datatype control = Continue | Break | Return result

definition monitor_job_body :: "(json \<Rightarrow> string) \<Rightarrow> json \<Rightarrow> py_error + control" where
  "monitor_job_body str_of job =
     (case py_getitem job ''summaryDone'' of
        Inl e \<Rightarrow> Inl e
      | Inr summaryDone \<Rightarrow>
          if truthy summaryDone then
            (case py_getitem job ''jobRunState'' of
               Inl e \<Rightarrow> Inl e
             | Inr jobRunState \<Rightarrow>
                 if py_eq jobRunState (JStr ''FAILURE'') then
                   (case py_getitem2 job ''id'' ''value'' of
                      Inl e \<Rightarrow> Inl e
                    | Inr i \<Rightarrow>
                        (case py_getitem job ''error'' of
                           Inl e \<Rightarrow> Inl e
                         | Inr err \<Rightarrow>
                             Inr (Return \<lparr>changed = Some False, failed = Some True,
                               msg = Some (''Job '' @ str_of i @ '' failed with: '' @ str_of err @ ''.''),
                               resultId = None\<rparr>)))
                 else if py_eq jobRunState (JStr ''SUCCESS'') then
                   (case py_getitem job ''resultId'' of
                      Inl e \<Rightarrow> Inl e
                    | Inr r \<Rightarrow>
                        Inr (Return \<lparr>changed = Some True, failed = Some False,
                          msg = None, resultId = Some r\<rparr>))
                 else if py_eq jobRunState (JStr ''RUNNING'') then Inr Continue
                 else Inr Break)
          else Inr Continue)"

text \<open>
  The loop itself. It has no bound, so it is a partial function: \<open>None\<close> is the run
  that polls for ever. Leaving the loop by \<^verbatim>\<open>break\<close> returns Python's \<^verbatim>\<open>None\<close>,
  here \<open>Inr None\<close>.
\<close>

partial_function (option) monitor_job ::
  "(json \<Rightarrow> string) \<Rightarrow> OVMRestClient \<Rightarrow> json \<Rightarrow> request list \<Rightarrow> result option io option" where
  "monitor_job str_of c job_id log =
     (case py_add_str (base_uri c @ ''/Job/'') job_id of
        Inl e \<Rightarrow> Some (Inl e, log)
      | Inr url \<Rightarrow>
          (case send c (GET url) log of
             (Inl e, log1) \<Rightarrow> Some (Inl e, log1)
           | (Inr job, log1) \<Rightarrow>
               (case monitor_job_body str_of job of
                  Inl e \<Rightarrow> Some (Inl e, log1)
                | Inr Continue \<Rightarrow> monitor_job str_of c job_id log1
                | Inr Break \<Rightarrow> Some (Inr None, log1)
                | Inr (Return r) \<Rightarrow> Some (Inr (Some r), log1))))"

declare monitor_job.simps [code]


subsection \<open>\<^verbatim>\<open>class OVMVmHelper\<close>\<close>

text \<open>
  The name of the virtual machine is the string parameter \<^verbatim>\<open>name\<close> of the module at
  every call site. A network, a virtual disk, a MAC address and a slot come out of
  list parameters and are arbitrary values.
\<close>

definition OVMVmHelper_get_id_for_name :: "OVMRestClient \<Rightarrow> string \<Rightarrow> request list \<Rightarrow> json io" where
  "OVMVmHelper_get_id_for_name c name log = OVMRestClient_get_id_for_name c ''Vm'' (JStr name) log"

definition OVMVmHelper_create ::
  "(json \<Rightarrow> string) \<Rightarrow> OVMRestClient \<Rightarrow> json \<Rightarrow> request list \<Rightarrow> result option io option" where
  "OVMVmHelper_create str_of c data log =
     bind_run (Some (OVMRestClient_create c ''Vm'' data log)) (\<lambda>result log.
     bind_run (Some (py_getitem2 result ''id'' ''value'', log)) (\<lambda>job_id log.
     monitor_job str_of c job_id log))"

definition vm_not_found :: "string \<Rightarrow> result" where
  "vm_not_found name =
     \<lparr>changed = Some False, failed = Some True,
      msg = Some (''Could not find a vm named '' @ name @ ''.''), resultId = None\<rparr>"

definition OVMVmHelper_delete ::
  "(json \<Rightarrow> string) \<Rightarrow> OVMRestClient \<Rightarrow> string \<Rightarrow> request list \<Rightarrow> result option io option" where
  "OVMVmHelper_delete str_of c name log =
     bind_run (Some (OVMVmHelper_get_id_for_name c name log)) (\<lambda>vm_id log.
     if vm_id = JNull then Some (Inr (Some (vm_not_found name)), log)
     else
       bind_run (Some (py_getitem vm_id ''value'', log)) (\<lambda>object_id log.
       bind_run (Some (OVMRestClient_delete c ''Vm'' object_id log)) (\<lambda>result log.
       bind_run (Some (py_getitem2 result ''id'' ''value'', log)) (\<lambda>job_id log.
       monitor_job str_of c job_id log))))"

definition OVMVmHelper_create_virtualnic ::
  "(json \<Rightarrow> string) \<Rightarrow> OVMRestClient \<Rightarrow> string \<Rightarrow> json \<Rightarrow> json \<Rightarrow> request list
     \<Rightarrow> result option io option" where
  "OVMVmHelper_create_virtualnic str_of c name network mac_address log =
     bind_run (Some (OVMVmHelper_get_id_for_name c name log)) (\<lambda>vm_id log.
     if vm_id = JNull then Some (Inr (Some (vm_not_found name)), log)
     else
       bind_run (Some (OVMRestClient_get_id_for_name c ''Network'' network log)) (\<lambda>network_id log.
       if network_id = JNull then
         Some (Inr (Some \<lparr>changed = Some False, failed = Some True,
           msg = Some (''Could not find a network named '' @ str_of network @ ''.''),
           resultId = None\<rparr>), log)
       else
         bind_run (Some (py_getitem vm_id ''value'', log)) (\<lambda>object_id log.
         bind_run (Some (OVMRestClient_create_child c ''Vm'' object_id ''VirtualNic''
             (JObj [(''name'', mac_address), (''macAddress'', mac_address),
                    (''networkId'', network_id)]) log)) (\<lambda>result log.
         bind_run (Some (py_getitem2 result ''id'' ''value'', log)) (\<lambda>job_id log.
         monitor_job str_of c job_id log)))))"

definition OVMVmHelper_create_diskmapping ::
  "(json \<Rightarrow> string) \<Rightarrow> OVMRestClient \<Rightarrow> string \<Rightarrow> json \<Rightarrow> json \<Rightarrow> request list
     \<Rightarrow> result option io option" where
  "OVMVmHelper_create_diskmapping str_of c name slot virtual_disk log =
     bind_run (Some (OVMVmHelper_get_id_for_name c name log)) (\<lambda>vm_id log.
     if vm_id = JNull then Some (Inr (Some (vm_not_found name)), log)
     else
       bind_run (Some (OVMRestClient_get_id_for_name c ''VirtualDisk'' virtual_disk log))
         (\<lambda>virtual_disk_id log.
       if virtual_disk_id = JNull then
         Some (Inr (Some \<lparr>changed = Some False, failed = Some True,
           msg = Some (''Could not find a virtual_disk named '' @ str_of virtual_disk @ ''.''),
           resultId = None\<rparr>), log)
       else
         bind_run (Some (py_getitem vm_id ''value'', log)) (\<lambda>object_id log.
         bind_run (Some (OVMRestClient_create_child c ''Vm'' object_id ''VmDiskMapping''
             (JObj [(''diskTarget'', slot), (''virtualDiskId'', virtual_disk_id)]) log))
           (\<lambda>result log.
         bind_run (Some (py_getitem2 result ''id'' ''value'', log)) (\<lambda>job_id log.
         monitor_job str_of c job_id log)))))"

definition OVMVmHelper_state ::
  "(json \<Rightarrow> string) \<Rightarrow> OVMRestClient \<Rightarrow> string \<Rightarrow> string \<Rightarrow> request list \<Rightarrow> result option io option" where
  "OVMVmHelper_state str_of c name state log =
     bind_run (Some (OVMVmHelper_get_id_for_name c name log)) (\<lambda>vm_id log.
     if vm_id = JNull then Some (Inr (Some (vm_not_found name)), log)
     else
       bind_run (Some (py_getitem vm_id ''value'', log)) (\<lambda>object_id log.
       bind_run (Some (OVMRestClient_update_child c ''Vm'' object_id state (JObj []) log))
         (\<lambda>result log.
       bind_run (Some (py_getitem2 result ''id'' ''value'', log)) (\<lambda>job_id log.
       monitor_job str_of c job_id log))))"

definition OVMVmHelper_start ::
  "(json \<Rightarrow> string) \<Rightarrow> OVMRestClient \<Rightarrow> string \<Rightarrow> request list \<Rightarrow> result option io option" where
  "OVMVmHelper_start str_of c name log = OVMVmHelper_state str_of c name ''start'' log"

definition OVMVmHelper_stop ::
  "(json \<Rightarrow> string) \<Rightarrow> OVMRestClient \<Rightarrow> string \<Rightarrow> request list \<Rightarrow> result option io option" where
  "OVMVmHelper_stop str_of c name log = OVMVmHelper_state str_of c name ''stop'' log"


section \<open>The entry point\<close>

text \<open>
  \<^verbatim>\<open>module.params\<close> after \<^verbatim>\<open>AnsibleModule\<close> has filled in the defaults. A parameter
  that is required or has a default always has a value; one whose default is
  \<^verbatim>\<open>None\<close> is an option.
\<close>

record params =
  p_state :: string
  p_name :: string
  p_ovm_user :: string
  p_ovm_pass :: string
  p_ovm_host :: string
  p_server_pool :: string
  p_repository :: string
  p_domain_type :: string
  p_memory :: int
  p_memory_limit :: "int option"
  p_cpu_count :: int
  p_cpu_count_limit :: "int option"
  p_cpu_priority :: int
  p_cpu_utilization_cap :: int
  p_high_availability :: bool
  p_mouse_type :: string
  p_keymap_name :: string
  p_boot_order :: "json list option"
  p_os_type :: "string option"
  p_network_install_path :: "string option"
  p_start_policy :: "string option"
  p_networks :: "json list option"
  p_disks :: "json list option"
  p_virtual_nics :: "json list option"
  p_disk_mappings :: "json list option"

text \<open>The \<^verbatim>\<open>choices\<close> lists of \<^verbatim>\<open>argument_spec\<close>.\<close>

definition state_choices :: "string list" where
  "state_choices = [''present'', ''absent'', ''start'', ''stop'', ''restart'', ''scale'']"

definition domain_type_choices :: "string list" where
  "domain_type_choices = [''XEN_HVM'', ''XEN_HVM_PV_DRIVERS'', ''XEN_PVM'', ''LDOMS_PVM'', ''UNKNOWN'']"

definition mouse_type_choices :: "string list" where
  "mouse_type_choices = [''USB_TABLET'']"

definition keymap_name_choices :: "string list" where
  "keymap_name_choices = [''en-us'']"

text \<open>
  The check that the constructor \<^verbatim>\<open>AnsibleModule(argument_spec=...)\<close> makes of the
  parameters that have \<^verbatim>\<open>choices\<close>: a value outside the list ends the invocation.
\<close>

definition argument_spec_accepts :: "params \<Rightarrow> bool" where
  "argument_spec_accepts p \<longleftrightarrow>
     p_state p \<in> set state_choices \<and>
     p_domain_type p \<in> set domain_type_choices \<and>
     p_mouse_type p \<in> set mouse_type_choices \<and>
     p_keymap_name p \<in> set keymap_name_choices"

text \<open>The flags set by the guarded imports at the top of the file.\<close>

record import_flags =
  HAS_REQUESTS :: bool
  HAS_JSON :: bool
  HAS_TIME :: bool

text \<open>
  How an invocation ends when no exception escapes: \<^verbatim>\<open>exit_json\<close> or \<^verbatim>\<open>fail_json\<close>
  with the keyword arguments given, or the rejection of the parameters by
  \<^verbatim>\<open>AnsibleModule\<close>. Each of them ends the process.
\<close>

datatype exit = Exit_json result | Fail_json result | Params_rejected

definition fail_msg :: "string \<Rightarrow> exit" where
  "fail_msg m = Fail_json \<lparr>changed = None, failed = None, msg = Some m, resultId = None\<rparr>"

text \<open>
  The checks on \<^verbatim>\<open>memory\<close> and \<^verbatim>\<open>memory_limit\<close> and the defaults of the two limits:
  the message of the \<^verbatim>\<open>fail_json\<close> that ends the invocation, or the values of the
  local variables \<^verbatim>\<open>memory_limit\<close> and \<^verbatim>\<open>cpu_count_limit\<close> afterwards.
\<close>

definition main_limits :: "params \<Rightarrow> string + int \<times> int" where
  "main_limits p =
     (let memory = p_memory p; cpu_count = p_cpu_count p in
      if memory mod 1024 \<noteq> 0 then Inl ''memory must be a multitude of 1024''
      else
        (case p_memory_limit p of
           None \<Rightarrow>
             Inr (memory, case p_cpu_count_limit p of None \<Rightarrow> cpu_count | Some l \<Rightarrow> l)
         | Some memory_limit \<Rightarrow>
             if memory_limit < memory then Inl ''memory_limit < memory''
             else if memory_limit mod 1024 \<noteq> 0 then
               Inl ''memory_limit must be a multitude of 1024''
             else
               Inr (memory_limit,
                    case p_cpu_count_limit p of None \<Rightarrow> cpu_count | Some l \<Rightarrow> l)))"

text \<open>The dict posted to create the virtual machine.\<close>

definition json_of_str_option :: "string option \<Rightarrow> json" where
  "json_of_str_option s = (case s of None \<Rightarrow> JNull | Some t \<Rightarrow> JStr t)"

definition json_of_list_option :: "json list option \<Rightarrow> json" where
  "json_of_list_option xs = (case xs of None \<Rightarrow> JNull | Some ys \<Rightarrow> JList ys)"

definition vm_data :: "params \<Rightarrow> int \<Rightarrow> int \<Rightarrow> json \<Rightarrow> json \<Rightarrow> json" where
  "vm_data p memory_limit cpu_count_limit repository_id server_pool_id =
     JObj [
       (''repositoryId'', repository_id),
       (''serverPoolId'', server_pool_id),
       (''vmDomainType'', JStr (p_domain_type p)),
       (''name'', JStr (p_name p)),
       (''cpuCount'', JInt (p_cpu_count p)),
       (''cpuCountLimit'', JInt cpu_count_limit),
       (''memory'', JInt (p_memory p)),
       (''memoryLimit'', JInt memory_limit),
       (''cpuPriority'', JInt (p_cpu_priority p)),
       (''cpuUtilizationCap'', JInt (p_cpu_utilization_cap p)),
       (''highAvailability'', JBool (p_high_availability p)),
       (''vmMouseType'', JStr (p_mouse_type p)),
       (''keymapName'', JStr (p_keymap_name p)),
       (''bootOrder'', json_of_list_option (p_boot_order p)),
       (''osType'', json_of_str_option (p_os_type p)),
       (''networkInstallPath'', json_of_str_option (p_network_install_path p)),
       (''vmStartPolicy'', json_of_str_option (p_start_policy p))]"

text \<open>A \<^verbatim>\<open>for\<close> loop over a list parameter: \<^verbatim>\<open>None\<close> is not iterable.\<close>

definition iter_param :: "json list option \<Rightarrow> py_error + json list" where
  "iter_param xs = (case xs of None \<Rightarrow> Inl TypeError | Some ys \<Rightarrow> Inr ys)"

text \<open>
  The two attachment loops. Each round overwrites the variable \<^verbatim>\<open>result\<close>, which is
  the last argument here.
\<close>

fun virtual_nics_loop ::
  "(json \<Rightarrow> string) \<Rightarrow> OVMRestClient \<Rightarrow> string \<Rightarrow> json list \<Rightarrow> result option \<Rightarrow> request list
     \<Rightarrow> result option io option" where
  "virtual_nics_loop str_of c name [] result log = Some (Inr result, log)"
| "virtual_nics_loop str_of c name (virtual_nic # rest) result log =
     bind_run (Some (py_getitem virtual_nic ''network'', log)) (\<lambda>network log.
     bind_run (Some (py_getitem virtual_nic ''mac_address'', log)) (\<lambda>mac_address log.
     bind_run (OVMVmHelper_create_virtualnic str_of c name network mac_address log) (\<lambda>result log.
     virtual_nics_loop str_of c name rest result log)))"

fun disk_mappings_loop ::
  "(json \<Rightarrow> string) \<Rightarrow> OVMRestClient \<Rightarrow> string \<Rightarrow> json list \<Rightarrow> result option \<Rightarrow> request list
     \<Rightarrow> result option io option" where
  "disk_mappings_loop str_of c name [] result log = Some (Inr result, log)"
| "disk_mappings_loop str_of c name (disk_mapping # rest) result log =
     bind_run (Some (py_getitem disk_mapping ''slot'', log)) (\<lambda>slot log.
     bind_run (Some (py_getitem disk_mapping ''virtual_disk'', log)) (\<lambda>virtual_disk log.
     bind_run (OVMVmHelper_create_diskmapping str_of c name slot virtual_disk log) (\<lambda>result log.
     disk_mappings_loop str_of c name rest result log)))"

text \<open>
  The dispatch on whether the virtual machine exists and on the requested state.
  \<open>result\<close> is the variable as initialised before: neither failed nor changed.
\<close>

definition main_dispatch ::
  "(json \<Rightarrow> string) \<Rightarrow> OVMRestClient \<Rightarrow> params \<Rightarrow> int \<Rightarrow> int \<Rightarrow> json \<Rightarrow> json \<Rightarrow> json
     \<Rightarrow> result option \<Rightarrow> request list \<Rightarrow> result option io option" where
  "main_dispatch str_of c p memory_limit cpu_count_limit repository_id server_pool_id vm result log =
     (if truthy vm then
        (if p_state p = ''absent'' then OVMVmHelper_delete str_of c (p_name p) log
         else if p_state p = ''present'' then
           Some (Inr (Some \<lparr>changed = None, failed = Some False, msg = None, resultId = None\<rparr>), log)
         else if p_state p \<in> set [''start'', ''stop'', ''restart''] then
           OVMVmHelper_state str_of c (p_name p) (p_state p) log
         else Some (Inl AssertionError, log))
      else
        (if p_state p \<in> set [''poweredon'', ''poweredoff'', ''present'', ''restarted'', ''suspended'']
         then
           bind_run (OVMVmHelper_create str_of c
               (vm_data p memory_limit cpu_count_limit repository_id server_pool_id) log)
             (\<lambda>result log.
           bind_run (Some (iter_param (p_virtual_nics p), log)) (\<lambda>virtual_nics log.
           bind_run (virtual_nics_loop str_of c (p_name p) virtual_nics result log) (\<lambda>result log.
           bind_run (Some (iter_param (p_disk_mappings p), log)) (\<lambda>disk_mappings log.
           bind_run (disk_mappings_loop str_of c (p_name p) disk_mappings result log) (\<lambda>result log.
           OVMVmHelper_start str_of c (p_name p) log)))))
         else Some (Inr result, log)))"

text \<open>
  The end of \<^verbatim>\<open>main\<close>: the test \<^verbatim>\<open>'failed' not in result\<close> raises on \<^verbatim>\<open>None\<close>.
\<close>

definition main_report :: "result option \<Rightarrow> py_error + exit" where
  "main_report result =
     (case result of
        None \<Rightarrow> Inl TypeError
      | Some r \<Rightarrow>
          (let r' = (if failed r = None then r\<lparr>failed := Some False\<rparr> else r) in
           if failed r' = Some True then Inr (Fail_json r') else Inr (Exit_json r')))"

definition main ::
  "(json \<Rightarrow> string) \<Rightarrow> import_flags \<Rightarrow> (request list \<Rightarrow> json option) \<Rightarrow> params \<Rightarrow> request list
     \<Rightarrow> exit io option" where
  "main str_of flags remote p log =
     (if \<not> argument_spec_accepts p then Some (Inr Params_rejected, log)
      else if \<not> HAS_REQUESTS flags then
        Some (Inr (fail_msg (''ovm_vm module requires the '' @ [CHR 0x27] @ ''requests''
          @ [CHR 0x27] @ '' package'')), log)
      else if \<not> HAS_JSON flags then
        Some (Inr (fail_msg (''ovm_vm module requires the '' @ [CHR 0x27] @ ''json''
          @ [CHR 0x27] @ '' package'')), log)
      else if \<not> HAS_TIME flags then
        Some (Inr (fail_msg (''ovm_storage module requires the '' @ [CHR 0x27] @ ''time''
          @ [CHR 0x27] @ '' package'')), log)
      else
        (case main_limits p of
           Inl m \<Rightarrow> Some (Inr (fail_msg m), log)
         | Inr (memory_limit, cpu_count_limit) \<Rightarrow>
             (let c = \<lparr>session = remote, base_uri = p_ovm_host p @ ''/ovm/core/wsapi/rest''\<rparr> in
              bind_run (Some (OVMRestClient_get_id_for_name c ''Repository''
                  (JStr (p_repository p)) log)) (\<lambda>repository_id log.
              bind_run (Some (OVMRestClient_get_id_for_name c ''ServerPool''
                  (JStr (p_server_pool p)) log)) (\<lambda>server_pool_id log.
              bind_run (Some (OVMVmHelper_get_id_for_name c (p_name p) log)) (\<lambda>vm log.
              bind_run (main_dispatch str_of c p memory_limit cpu_count_limit
                  repository_id server_pool_id vm
                  (Some \<lparr>changed = Some False, failed = Some False, msg = None, resultId = None\<rparr>)
                  log) (\<lambda>result log.
              Some (main_report result, log))))))))"

section \<open>Notions used in the statements\<close>

subsection \<open>Polling\<close>

text \<open>
  The URL polled for the job \<open>j\<close>, and the answer to the \<open>k\<close>-th poll (counted from 0)
  of a polling that starts after the requests \<open>log\<close>: nothing else is sent in between.
\<close>

definition job_url :: "OVMRestClient \<Rightarrow> string \<Rightarrow> string" where
  "job_url c j = base_uri c @ ''/Job/'' @ j"

definition poll :: "OVMRestClient \<Rightarrow> string \<Rightarrow> request list \<Rightarrow> nat \<Rightarrow> json option" where
  "poll c j log k = session c (log @ replicate (Suc k) (GET (job_url c j)))"

text \<open>
  A job that is still running, as the loop reads it: \<^verbatim>\<open>summaryDone\<close> is false, or it is
  true and \<^verbatim>\<open>jobRunState\<close> is \<^verbatim>\<open>'RUNNING'\<close>.
\<close>

definition still_running :: "json \<Rightarrow> bool" where
  "still_running job =
     (case py_getitem job ''summaryDone'' of
        Inl e \<Rightarrow> False
      | Inr summaryDone \<Rightarrow>
          \<not> truthy summaryDone \<or> py_getitem job ''jobRunState'' = Inr (JStr ''RUNNING''))"

definition keeps_polling :: "json option \<Rightarrow> bool" where
  "keeps_polling reply = (case reply of None \<Rightarrow> False | Some job \<Rightarrow> still_running job)"

text \<open>What \<^const>\<open>monitor_job\<close> returns or raises on the answer that ends the polling.\<close>

definition poll_result :: "(json \<Rightarrow> string) \<Rightarrow> json option \<Rightarrow> py_error + result option" where
  "poll_result str_of reply =
     (case reply of
        None \<Rightarrow> Inl RequestError
      | Some job \<Rightarrow>
          (case monitor_job_body str_of job of
             Inl e \<Rightarrow> Inl e
           | Inr (Return r) \<Rightarrow> Inr (Some r)
           | Inr _ \<Rightarrow> Inr None))"

subsection \<open>Listings\<close>

text \<open>An element of a listing that has a \<^verbatim>\<open>'name'\<close>, and one whose name is the one sought.\<close>

definition named :: "json \<Rightarrow> bool" where
  "named element = (case py_getitem element ''name'' of Inl e \<Rightarrow> False | Inr n \<Rightarrow> True)"

definition has_name :: "json \<Rightarrow> json \<Rightarrow> bool" where
  "has_name object_name element =
     (case py_getitem element ''name'' of Inl e \<Rightarrow> False | Inr n \<Rightarrow> py_eq n object_name)"

definition listing_url :: "OVMRestClient \<Rightarrow> string \<Rightarrow> string" where
  "listing_url c object_type = base_uri c @ ''/'' @ object_type @ ''/id''"

subsection \<open>Addresses\<close>

text \<open>
  The client that \<^verbatim>\<open>main\<close> builds from its parameters and the session, the address
  of an object and the address of a child collection of an object.
\<close>

definition main_client :: "(request list \<Rightarrow> json option) \<Rightarrow> params \<Rightarrow> OVMRestClient" where
  "main_client remote p = \<lparr>session = remote, base_uri = p_ovm_host p @ ''/ovm/core/wsapi/rest''\<rparr>"

definition object_url :: "OVMRestClient \<Rightarrow> string \<Rightarrow> string \<Rightarrow> string" where
  "object_url c object_type object_id = base_uri c @ ''/'' @ object_type @ ''/'' @ object_id"


subsection \<open>Reading the list of requests\<close>






subsection \<open>Histories of the create path\<close>









section \<open>Concrete invocations and managers\<close>

text \<open>
  The conversion of \<^verbatim>\<open>%s\<close> on strings, which is the identity; the examples format
  nothing else.
\<close>

definition str_of_text :: "json \<Rightarrow> string" where
  "str_of_text v = (case v of JStr s \<Rightarrow> s | _ \<Rightarrow> [])"

text \<open>
  The declared parameters of the invocation in the \<^verbatim>\<open>EXAMPLES\<close> block, the others at
  their defaults, with empty attachment lists.
\<close>

definition example_params :: params where
  "example_params =
     \<lparr>p_state = ''present'', p_name = ''host01'', p_ovm_user = ''admin'',
      p_ovm_pass = ''password'', p_ovm_host = ''https://127.0.0.1:7002'',
      p_server_pool = ''Pool1'', p_repository = ''Repo1'', p_domain_type = ''XEN_PVM'',
      p_memory = 4096, p_memory_limit = None, p_cpu_count = 4, p_cpu_count_limit = None,
      p_cpu_priority = 100, p_cpu_utilization_cap = 100, p_high_availability = False,
      p_mouse_type = ''USB_TABLET'', p_keymap_name = ''en-us'',
      p_boot_order = Some [JStr ''PXE'', JStr ''DISK''], p_os_type = Some ''Oracle Linux 6'',
      p_network_install_path = None, p_start_policy = None, p_networks = None,
      p_disks = None, p_virtual_nics = Some [], p_disk_mappings = Some []\<rparr>"

definition all_imported :: import_flags where
  "all_imported = \<lparr>HAS_REQUESTS = True, HAS_JSON = True, HAS_TIME = True\<rparr>"

text \<open>A manager that answers every request with the same listing, two of whose
  elements share a name.\<close>

definition example_listing :: json where
  "example_listing =
     JList [JObj [(''name'', JStr ''host00''), (''value'', JStr ''0004fb00'')],
            JObj [(''name'', JStr ''host01''), (''value'', JStr ''0004fb01'')],
            JObj [(''name'', JStr ''host01''), (''value'', JStr ''0004fb02'')]]"

definition listing_client :: OVMRestClient where
  "listing_client = \<lparr>session = (\<lambda>log. Some example_listing), base_uri = ''https://ovm/rest''\<rparr>"

text \<open>
  A manager that answers by script: the \<open>n\<close>-th request of the run gets the \<open>n\<close>-th
  answer of the list, and every request after the list the answer \<open>final\<close>.
\<close>

definition scripted :: "json list \<Rightarrow> json \<Rightarrow> request list \<Rightarrow> json option" where
  "scripted replies final log =
     Some (if length log - 1 < length replies then replies ! (length log - 1) else final)"

text \<open>Answers of the job resource.\<close>

definition job_failure :: json where
  "job_failure = JObj [(''id'', JObj [(''value'', JStr ''7'')]), (''summaryDone'', JBool True),
     (''jobRunState'', JStr ''FAILURE''), (''error'', JStr ''boom'')]"

definition job_success :: json where
  "job_success = JObj [(''id'', JObj [(''value'', JStr ''7'')]), (''summaryDone'', JBool True),
     (''jobRunState'', JStr ''SUCCESS''), (''resultId'', JObj [(''value'', JStr ''0004fb01'')])]"

definition job_aborted :: json where
  "job_aborted = JObj [(''id'', JObj [(''value'', JStr ''7'')]), (''summaryDone'', JBool True),
     (''jobRunState'', JStr ''ABORTED'')]"

definition job_running :: json where
  "job_running = JObj [(''id'', JObj [(''value'', JStr ''7'')]), (''summaryDone'', JBool True),
     (''jobRunState'', JStr ''RUNNING'')]"

definition job_pending :: json where
  "job_pending = JObj [(''id'', JObj [(''value'', JStr ''7'')]), (''summaryDone'', JBool False),
     (''jobRunState'', JStr ''RUNNING'')]"

definition scripted_client :: "json list \<Rightarrow> json \<Rightarrow> OVMRestClient" where
  "scripted_client replies final = \<lparr>session = scripted replies final, base_uri = ''https://ovm/rest''\<rparr>"

text \<open>The answer to a call that starts the job 7.\<close>

definition job_started :: json where
  "job_started = JObj [(''id'', JObj [(''value'', JStr ''7'')])]"

text \<open>Listings of the repositories, the server pools, the networks and the virtual disks.\<close>

definition repository_listing :: json where
  "repository_listing = JList [JObj [(''name'', JStr ''Repo1''), (''value'', JStr ''0004fb03'')]]"

definition server_pool_listing :: json where
  "server_pool_listing = JList [JObj [(''name'', JStr ''Pool1''), (''value'', JStr ''0004fb04'')]]"

definition network_listing :: json where
  "network_listing = JList [JObj [(''name'', JStr ''10.20.20.0''), (''value'', JStr ''0a141400'')]]"


text \<open>An invocation with two network interfaces and one disk mapping.\<close>

definition example_nics :: "json list" where
  "example_nics =
     [JObj [(''network'', JStr ''10.20.20.0''), (''mac_address'', JStr ''00:21:f6:00:00:01'')],
      JObj [(''network'', JStr ''10.20.20.0''), (''mac_address'', JStr ''00:21:f6:00:00:02'')]]"

definition example_disks :: "json list" where
  "example_disks = [JObj [(''slot'', JInt 0), (''virtual_disk'', JStr ''host1_root'')]]"

definition full_params :: params where
  "full_params = example_params\<lparr>p_virtual_nics := Some example_nics,
     p_disk_mappings := Some example_disks\<rparr>"

text \<open>
  The answers of a run in which the job that creates the virtual machine fails, so
  that the listing never shows it.
\<close>

definition failed_create_run :: "json list" where
  "failed_create_run =
     [repository_listing, server_pool_listing, JList [], job_started, job_failure]"

text \<open>
  The answers of a run of the invocation with two interfaces and one disk mapping in
  which the virtual machine does not exist and is created, the job that attaches the
  first interface fails, the network of the second and the virtual disk of the mapping
  are not listed, and the start succeeds.
\<close>

definition failed_attach_run :: "json list" where
  "failed_attach_run =
     [repository_listing, server_pool_listing, JList [],
      job_started, job_success,
      example_listing, network_listing, job_started, job_failure,
      example_listing, JList [],
      example_listing, JList [],
      example_listing, job_started, job_success]"



section \<open>Facts about the Python values\<close>

lemma py_eq_JStr: "py_eq a (JStr s) \<longleftrightarrow> a = JStr s"
  by (cases a) auto


section \<open>The polling loop\<close>

lemma monitor_job_body_Continue: "monitor_job_body s job = Inr Continue \<longleftrightarrow> still_running job"
  by (auto simp: monitor_job_body_def still_running_def py_eq_JStr split: sum.splits)

lemma monitor_job_step:
  "monitor_job s c (JStr j) log =
     (if keeps_polling (session c (log @ [GET (job_url c j)]))
      then monitor_job s c (JStr j) (log @ [GET (job_url c j)])
      else Some (poll_result s (session c (log @ [GET (job_url c j)])), log @ [GET (job_url c j)]))"
proof (cases "session c (log @ [GET (job_url c j)])")
  case None
  then show ?thesis
    by (subst monitor_job.simps) (simp add: keeps_polling_def poll_result_def send_def job_url_def)
next
  case (Some job)
  show ?thesis
  proof (cases "monitor_job_body s job")
    case (Inl e)
    then have "\<not> still_running job"
      using monitor_job_body_Continue[of s job] by simp
    with Some Inl show ?thesis
      by (subst monitor_job.simps) (simp add: keeps_polling_def poll_result_def send_def job_url_def)
  next
    case (Inr ctl)
    then have "still_running job \<longleftrightarrow> ctl = Continue"
      using monitor_job_body_Continue[of s job] by simp
    with Some Inr show ?thesis
      by (subst monitor_job.simps)
         (simp add: keeps_polling_def poll_result_def send_def job_url_def split: control.splits)
  qed
qed

lemma poll_shift: "poll c j (log @ [GET (job_url c j)]) k = poll c j log (Suc k)"
  by (simp add: poll_def replicate_app_Cons_same)

lemma monitor_job_returns:
  "(\<forall>i<k. keeps_polling (poll c j log i)) \<Longrightarrow> \<not> keeps_polling (poll c j log k)
   \<Longrightarrow> monitor_job s c (JStr j) log =
       Some (poll_result s (poll c j log k), log @ replicate (Suc k) (GET (job_url c j)))"
proof (induction k arbitrary: log)
  case 0
  then show ?case by (subst monitor_job_step) (simp add: poll_def)
next
  case (Suc k)
  have first: "keeps_polling (session c (log @ [GET (job_url c j)]))"
    using Suc.prems(1)[rule_format, of 0] by (simp add: poll_def)
  have "monitor_job s c (JStr j) (log @ [GET (job_url c j)]) =
      Some (poll_result s (poll c j (log @ [GET (job_url c j)]) k),
        (log @ [GET (job_url c j)]) @ replicate (Suc k) (GET (job_url c j)))"
  proof (rule Suc.IH)
    show "\<forall>i<k. keeps_polling (poll c j (log @ [GET (job_url c j)]) i)"
      using Suc.prems(1) by (simp add: poll_shift)
    show "\<not> keeps_polling (poll c j (log @ [GET (job_url c j)]) k)"
      using Suc.prems(2) by (simp add: poll_shift)
  qed
  then show ?case
    by (subst monitor_job_step) (simp add: first replicate_app_Cons_same poll_shift)
qed

lemma monitor_job_Some:
  assumes "monitor_job s c job_id log = Some y"
  shows "(\<forall>j. job_id \<noteq> JStr j) \<and> y = (Inl TypeError, log) \<or>
         (\<exists>j k. job_id = JStr j \<and>
            (\<forall>i<k. keeps_polling (poll c j log i)) \<and> \<not> keeps_polling (poll c j log k) \<and>
            y = (poll_result s (poll c j log k), log @ replicate (Suc k) (GET (job_url c j))))"
  using assms
proof (induction s c job_id log y rule: monitor_job.raw_induct[rotated 1, consumes 1])
  case (1 f s c job_id log y)
  note ih = "1.IH" and eq = "1.hyps"
  show ?case
  proof (cases job_id)
    case (JStr j)
    let ?log1 = "log @ [GET (job_url c j)]"
    show ?thesis
    proof (cases "keeps_polling (session c ?log1)")
      case True
      then obtain job where job: "session c ?log1 = Some job" "still_running job"
        by (auto simp: keeps_polling_def split: option.splits)
      then have "monitor_job_body s job = Inr Continue"
        by (simp add: monitor_job_body_Continue)
      with job(1) have "f s c job_id ?log1 = Some y"
        using eq JStr by (simp add: send_def job_url_def)
      from ih[OF this] JStr obtain k where
        k: "\<forall>i<k. keeps_polling (poll c j ?log1 i)"
           "\<not> keeps_polling (poll c j ?log1 k)"
           "y = (poll_result s (poll c j ?log1 k), ?log1 @ replicate (Suc k) (GET (job_url c j)))"
        by auto
      have "\<forall>i<Suc k. keeps_polling (poll c j log i)"
      proof (intro allI impI)
        fix i assume "i < Suc k"
        then show "keeps_polling (poll c j log i)"
          using k(1) True by (cases i) (auto simp: poll_shift poll_def)
      qed
      moreover have "\<not> keeps_polling (poll c j log (Suc k))"
        using k(2) by (simp add: poll_shift)
      moreover have "y = (poll_result s (poll c j log (Suc k)),
          log @ replicate (Suc (Suc k)) (GET (job_url c j)))"
        using k(3) by (simp add: replicate_app_Cons_same poll_shift)
      ultimately show ?thesis using JStr by blast
    next
      case False
      have "\<And>job. session c ?log1 = Some job \<Longrightarrow> monitor_job_body s job \<noteq> Inr Continue"
        using False by (simp add: keeps_polling_def monitor_job_body_Continue)
      then have "y = (poll_result s (session c ?log1), ?log1)"
        using eq JStr
        by (auto simp: poll_result_def send_def job_url_def
            split: option.splits sum.splits control.splits)
      then have "(\<forall>i<0. keeps_polling (poll c j log i)) \<and> \<not> keeps_polling (poll c j log 0) \<and>
          y = (poll_result s (poll c j log 0), log @ replicate (Suc 0) (GET (job_url c j)))"
        using False by (simp add: poll_def)
      then show ?thesis using JStr by blast
    qed
  qed (use eq in auto)
qed

lemma monitor_job_diverges:
  assumes "\<forall>k. keeps_polling (poll c j log k)"
  shows "monitor_job s c (JStr j) log = None"
proof (rule ccontr)
  assume "monitor_job s c (JStr j) log \<noteq> None"
  then obtain y where "monitor_job s c (JStr j) log = Some y" by auto
  from monitor_job_Some[OF this] assms show False by auto
qed



section \<open>Name lookup\<close>

lemma get_id_for_name_loop_find:
  "list_all named (takeWhile (\<lambda>e. \<not> has_name object_name e) elements) \<Longrightarrow>
   get_id_for_name_loop elements object_name =
     Inr (case find (has_name object_name) elements of None \<Rightarrow> JNull | Some element \<Rightarrow> element)"
  by (induction elements) (auto simp: named_def has_name_def split: sum.splits)

text \<open>
  Claim C5. When the listing is a list and every element before the first match has a
  \<^verbatim>\<open>'name'\<close>, \<^verbatim>\<open>get_id_for_name\<close> sends the one listing request and returns the first
  element whose name equals the argument, whatever follows it in the listing; it
  returns \<^verbatim>\<open>None\<close> when no element matches.
\<close>

theorem get_id_for_name_first_match:
  assumes "session c (log @ [GET (listing_url c object_type)]) = Some (JList elements)"
    and "list_all named (takeWhile (\<lambda>e. \<not> has_name object_name e) elements)"
  shows "OVMRestClient_get_id_for_name c object_type object_name log =
     (Inr (case find (has_name object_name) elements of None \<Rightarrow> JNull | Some element \<Rightarrow> element),
      log @ [GET (listing_url c object_type)])"
  using assms
  by (simp add: OVMRestClient_get_id_for_name_def send_def listing_url_def
      get_id_for_name_loop_find)

theorem get_id_for_name_first_match_witness:
  "session listing_client ([] @ [GET (listing_url listing_client ''Vm'')]) =
     Some (JList [JObj [(''name'', JStr ''host00''), (''value'', JStr ''0004fb00'')],
            JObj [(''name'', JStr ''host01''), (''value'', JStr ''0004fb01'')],
            JObj [(''name'', JStr ''host01''), (''value'', JStr ''0004fb02'')]]) \<and>
   OVMRestClient_get_id_for_name listing_client ''Vm'' (JStr ''host01'') [] =
     (Inr (JObj [(''name'', JStr ''host01''), (''value'', JStr ''0004fb01'')]),
      [GET ''https://ovm/rest/Vm/id'']) \<and>
   OVMRestClient_get_id_for_name listing_client ''Vm'' (JStr ''host02'') [] =
     (Inr JNull, [GET ''https://ovm/rest/Vm/id''])"
proof -
  let ?els = "[JObj [(''name'', JStr ''host00''), (''value'', JStr ''0004fb00'')],
            JObj [(''name'', JStr ''host01''), (''value'', JStr ''0004fb01'')],
            JObj [(''name'', JStr ''host01''), (''value'', JStr ''0004fb02'')]]"
  have reply: "session listing_client ([] @ [GET (listing_url listing_client ''Vm'')]) =
      Some (JList ?els)"
    by (simp add: listing_client_def example_listing_def)
  have n1: "list_all named (takeWhile (\<lambda>e. \<not> has_name (JStr ''host01'') e) ?els)"
    by (simp add: named_def has_name_def)
  have n2: "list_all named (takeWhile (\<lambda>e. \<not> has_name (JStr ''host02'') e) ?els)"
    by (simp add: named_def has_name_def)
  show ?thesis
    using reply get_id_for_name_first_match[OF reply n1] get_id_for_name_first_match[OF reply n2]
    by (simp add: has_name_def listing_url_def listing_client_def)
qed

section \<open>Parameters\<close>

text \<open>
  Claim C8. The claim lists five admitted values of \<^verbatim>\<open>state\<close>, as the
  \<^verbatim>\<open>DOCUMENTATION\<close> block does. The \<^verbatim>\<open>choices\<close> of \<^verbatim>\<open>argument_spec\<close> hold a sixth,
  \<^verbatim>\<open>'scale'\<close>, and an invocation with it passes the check of the parameters.
\<close>

theorem state_scale_accepted:
  "''scale'' \<in> set state_choices \<and> argument_spec_accepts (example_params\<lparr>p_state := ''scale''\<rparr>)"
  by (simp add: state_choices_def argument_spec_accepts_def example_params_def
      domain_type_choices_def mouse_type_choices_def keymap_name_choices_def)

text \<open>
  Claim C2. An invocation whose \<^verbatim>\<open>memory\<close> is not a multiple of 1024, or whose
  \<^verbatim>\<open>memory_limit\<close> is set and is below \<^verbatim>\<open>memory\<close> or not a multiple of 1024, ends in a
  failure with no request sent. Where the checks pass, an unset \<^verbatim>\<open>memory_limit\<close> has
  become \<^verbatim>\<open>memory\<close> and an unset \<^verbatim>\<open>cpu_count_limit\<close> has become \<^verbatim>\<open>cpu_count\<close>.
\<close>

theorem main_limits_checked:
  "((p_memory p mod 1024 \<noteq> 0 \<or>
     (\<exists>l. p_memory_limit p = Some l \<and> (l < p_memory p \<or> l mod 1024 \<noteq> 0))) \<longrightarrow>
    (\<exists>m. main str_of flags remote p log = Some (Inr (fail_msg m), log)) \<or>
    main str_of flags remote p log = Some (Inr Params_rejected, log)) \<and>
   (main_limits p = Inr (memory_limit, cpu_count_limit) \<longrightarrow>
      (p_memory_limit p = None \<longrightarrow> memory_limit = p_memory p) \<and>
      (p_cpu_count_limit p = None \<longrightarrow> cpu_count_limit = p_cpu_count p))"
  by (auto simp: main_def main_limits_def Let_def split: option.splits if_splits)

theorem main_limits_checked_witness:
  "p_memory (example_params\<lparr>p_memory := 4097\<rparr>) mod 1024 \<noteq> 0 \<and>
   main str_of_text all_imported (\<lambda>log. None) (example_params\<lparr>p_memory := 4097\<rparr>) [] =
     Some (Inr (fail_msg ''memory must be a multitude of 1024''), []) \<and>
   p_memory_limit (example_params\<lparr>p_memory_limit := Some 2048\<rparr>) = Some 2048 \<and>
   2048 < p_memory (example_params\<lparr>p_memory_limit := Some 2048\<rparr>) \<and>
   main str_of_text all_imported (\<lambda>log. None) (example_params\<lparr>p_memory_limit := Some 2048\<rparr>) [] =
     Some (Inr (fail_msg ''memory_limit < memory''), []) \<and>
   p_memory_limit (example_params\<lparr>p_memory_limit := Some 5000\<rparr>) = Some 5000 \<and>
   (5000 :: int) mod 1024 \<noteq> 0 \<and>
   main str_of_text all_imported (\<lambda>log. None) (example_params\<lparr>p_memory_limit := Some 5000\<rparr>) [] =
     Some (Inr (fail_msg ''memory_limit must be a multitude of 1024''), []) \<and>
   p_memory_limit example_params = None \<and> p_cpu_count_limit example_params = None \<and>
   main_limits example_params = Inr (4096, 4)"
  using main_limits_checked[of "example_params\<lparr>p_memory := 4097\<rparr>" str_of_text all_imported
      "\<lambda>log. None" "[]" 0 0]
    main_limits_checked[of "example_params\<lparr>p_memory_limit := Some 2048\<rparr>" str_of_text
      all_imported "\<lambda>log. None" "[]" 0 0]
    main_limits_checked[of "example_params\<lparr>p_memory_limit := Some 5000\<rparr>" str_of_text
      all_imported "\<lambda>log. None" "[]" 0 0]
    main_limits_checked[of example_params str_of_text all_imported "\<lambda>log. None" "[]" 4096 4]
  by (simp add: main_def main_limits_def example_params_def all_imported_def
      argument_spec_accepts_def state_choices_def domain_type_choices_def
      mouse_type_choices_def keymap_name_choices_def)

section \<open>What the poller returns\<close>

lemma poll_result_Return:
  "monitor_job_body s job = Inr (Return r) \<Longrightarrow> poll_result s (Some job) = Inr (Some r)"
  by (simp add: poll_result_def)

text \<open>
  Claim C1, amended. Take the answer to any poll that \<^verbatim>\<open>monitor_job\<close> reaches (all
  earlier answers kept it polling) and let its \<^verbatim>\<open>summaryDone\<close> be true. If its
  \<^verbatim>\<open>jobRunState\<close> is \<^verbatim>\<open>'FAILURE'\<close>, the poller returns changed false, failed true and
  the message \<^verbatim>\<open>Job <id> failed with: <error>.\<close>, which ends with a full stop; if it is
  \<^verbatim>\<open>'SUCCESS'\<close>, the poller returns changed true, failed false and the \<^verbatim>\<open>resultId\<close>
  of the job.
\<close>

theorem monitor_job_done:
  assumes "\<forall>i<k. keeps_polling (poll c j log i)"
    and "poll c j log k = Some job"
    and "py_getitem job ''summaryDone'' = Inr summaryDone"
    and "truthy summaryDone"
  shows "(py_getitem job ''jobRunState'' = Inr (JStr ''FAILURE'') \<longrightarrow>
          py_getitem2 job ''id'' ''value'' = Inr i \<longrightarrow> py_getitem job ''error'' = Inr err \<longrightarrow>
          monitor_job str_of c (JStr j) log =
            Some (Inr (Some \<lparr>changed = Some False, failed = Some True,
                    msg = Some (''Job '' @ str_of i @ '' failed with: '' @ str_of err @ ''.''),
                    resultId = None\<rparr>),
                  log @ replicate (Suc k) (GET (job_url c j)))) \<and>
         (py_getitem job ''jobRunState'' = Inr (JStr ''SUCCESS'') \<longrightarrow>
          py_getitem job ''resultId'' = Inr r \<longrightarrow>
          monitor_job str_of c (JStr j) log =
            Some (Inr (Some \<lparr>changed = Some True, failed = Some False, msg = None,
                    resultId = Some r\<rparr>),
                  log @ replicate (Suc k) (GET (job_url c j))))"
proof (intro conjI impI)
  assume st: "py_getitem job ''jobRunState'' = Inr (JStr ''FAILURE'')"
    and "py_getitem2 job ''id'' ''value'' = Inr i" "py_getitem job ''error'' = Inr err"
  then have body: "monitor_job_body str_of job =
      Inr (Return \<lparr>changed = Some False, failed = Some True,
        msg = Some (''Job '' @ str_of i @ '' failed with: '' @ str_of err @ ''.''),
        resultId = None\<rparr>)"
    using assms(3,4) by (simp add: monitor_job_body_def)
  have "\<not> keeps_polling (poll c j log k)"
    using assms(2-4) st by (simp add: keeps_polling_def still_running_def)
  from monitor_job_returns[OF assms(1) this, of str_of] show "monitor_job str_of c (JStr j) log =
            Some (Inr (Some \<lparr>changed = Some False, failed = Some True,
                    msg = Some (''Job '' @ str_of i @ '' failed with: '' @ str_of err @ ''.''),
                    resultId = None\<rparr>),
                  log @ replicate (Suc k) (GET (job_url c j)))"
    by (simp only: assms(2) poll_result_Return[OF body])
next
  assume st: "py_getitem job ''jobRunState'' = Inr (JStr ''SUCCESS'')"
    and "py_getitem job ''resultId'' = Inr r"
  then have body: "monitor_job_body str_of job =
      Inr (Return \<lparr>changed = Some True, failed = Some False, msg = None, resultId = Some r\<rparr>)"
    using assms(3,4) by (simp add: monitor_job_body_def)
  have "\<not> keeps_polling (poll c j log k)"
    using assms(2-4) st by (simp add: keeps_polling_def still_running_def)
  from monitor_job_returns[OF assms(1) this, of str_of] show "monitor_job str_of c (JStr j) log =
            Some (Inr (Some \<lparr>changed = Some True, failed = Some False, msg = None,
                    resultId = Some r\<rparr>),
                  log @ replicate (Suc k) (GET (job_url c j)))"
    by (simp only: assms(2) poll_result_Return[OF body])
qed

lemma scripted_job_url: "job_url (scripted_client replies final) j = ''https://ovm/rest/Job/'' @ j"
  by (simp add: job_url_def scripted_client_def)

lemma scripted_poll:
  "poll (scripted_client replies final) j [] k =
     Some (if k < length replies then replies ! k else final)"
  by (simp add: poll_def scripted_client_def scripted_def)


text \<open>
  Claim C1 as stated gives the message without the full stop. For the failed job 7
  with the error \<^verbatim>\<open>boom\<close> the poller does not return that record.
\<close>

theorem monitor_job_failure_message:
  "monitor_job str_of_text (scripted_client [] job_failure) (JStr ''7'') [] =
     Some (Inr (Some \<lparr>changed = Some False, failed = Some True,
             msg = Some ''Job 7 failed with: boom.'', resultId = None\<rparr>),
           [GET ''https://ovm/rest/Job/7'']) \<and>
   monitor_job str_of_text (scripted_client [] job_failure) (JStr ''7'') [] \<noteq>
     Some (Inr (Some \<lparr>changed = Some False, failed = Some True,
             msg = Some ''Job 7 failed with: boom'', resultId = None\<rparr>),
           [GET ''https://ovm/rest/Job/7''])"
proof -
  have "\<not> keeps_polling (poll (scripted_client [] job_failure) ''7'' [] 0)"
    by (simp add: scripted_poll keeps_polling_def still_running_def job_failure_def)
  from monitor_job_returns[OF _ this, of str_of_text] show ?thesis
    by (simp add: scripted_poll poll_result_def monitor_job_body_def py_getitem2_def
        job_failure_def str_of_text_def scripted_job_url)
qed

theorem monitor_job_done_witness:
  "keeps_polling (poll (scripted_client [job_pending, job_running] job_failure) ''7'' [] 0) \<and>
   keeps_polling (poll (scripted_client [job_pending, job_running] job_failure) ''7'' [] 1) \<and>
   poll (scripted_client [job_pending, job_running] job_failure) ''7'' [] 2 = Some job_failure \<and>
   py_getitem job_failure ''summaryDone'' = Inr (JBool True) \<and> truthy (JBool True) \<and>
   py_getitem job_failure ''jobRunState'' = Inr (JStr ''FAILURE'') \<and>
   py_getitem2 job_failure ''id'' ''value'' = Inr (JStr ''7'') \<and>
   py_getitem job_failure ''error'' = Inr (JStr ''boom'') \<and>
   monitor_job str_of_text (scripted_client [job_pending, job_running] job_failure) (JStr ''7'') [] =
     Some (Inr (Some \<lparr>changed = Some False, failed = Some True,
             msg = Some ''Job 7 failed with: boom.'', resultId = None\<rparr>),
           [GET ''https://ovm/rest/Job/7'', GET ''https://ovm/rest/Job/7'',
            GET ''https://ovm/rest/Job/7'']) \<and>
   poll (scripted_client [] job_success) ''7'' [] 0 = Some job_success \<and>
   py_getitem job_success ''summaryDone'' = Inr (JBool True) \<and>
   py_getitem job_success ''jobRunState'' = Inr (JStr ''SUCCESS'') \<and>
   py_getitem job_success ''resultId'' = Inr (JObj [(''value'', JStr ''0004fb01'')]) \<and>
   monitor_job str_of_text (scripted_client [] job_success) (JStr ''7'') [] =
     Some (Inr (Some \<lparr>changed = Some True, failed = Some False, msg = None,
             resultId = Some (JObj [(''value'', JStr ''0004fb01'')])\<rparr>),
           [GET ''https://ovm/rest/Job/7''])"
proof -
  have a1: "\<forall>i<2. keeps_polling (poll (scripted_client [job_pending, job_running] job_failure) ''7'' [] i)"
    by (simp add: scripted_poll keeps_polling_def still_running_def job_pending_def
        job_running_def less_Suc_eq numeral_2_eq_2)
  have a2: "poll (scripted_client [job_pending, job_running] job_failure) ''7'' [] 2 = Some job_failure"
    by (simp add: scripted_poll)
  have a3: "py_getitem job_failure ''summaryDone'' = Inr (JBool True)"
    by (simp add: job_failure_def)
  have a4: "truthy (JBool True)" by simp
  have b1: "\<forall>i<0. keeps_polling (poll (scripted_client [] job_success) ''7'' [] i)" by simp
  have b2: "poll (scripted_client [] job_success) ''7'' [] 0 = Some job_success"
    by (simp add: scripted_poll)
  have b3: "py_getitem job_success ''summaryDone'' = Inr (JBool True)"
    by (simp add: job_success_def)
  show ?thesis
    using a1 a2 a3 a4 b1 b2 b3
      monitor_job_done[OF a1 a2 a3 a4, of "JStr ''7''" "JStr ''boom''" str_of_text]
      monitor_job_done[OF b1 b2 b3 a4, of _ _ str_of_text "JObj [(''value'', JStr ''0004fb01'')]"]
    by (simp add: job_failure_def job_success_def py_getitem2_def str_of_text_def
        scripted_job_url numeral_2_eq_2)
qed


text \<open>
  Claim C6, amended. The loop has no bound of any kind: while every answer shows a job
  still running (\<^verbatim>\<open>summaryDone\<close> false, or true with \<^verbatim>\<open>jobRunState\<close> \<^verbatim>\<open>'RUNNING'\<close>),
  \<^verbatim>\<open>monitor_job\<close> never returns. When it returns, it does so at the first answer that
  is not of that kind, after polling once per answer, with what that answer yields.
\<close>

theorem monitor_job_unbounded:
  "((\<forall>k. keeps_polling (poll c j log k)) \<longrightarrow> monitor_job str_of c (JStr j) log = None) \<and>
   (monitor_job str_of c (JStr j) log = Some (x, log') \<longrightarrow>
      (\<exists>k. (\<forall>i<k. keeps_polling (poll c j log i)) \<and> \<not> keeps_polling (poll c j log k) \<and>
           x = poll_result str_of (poll c j log k) \<and>
           log' = log @ replicate (Suc k) (GET (job_url c j))))"
proof (intro conjI impI)
  assume "\<forall>k. keeps_polling (poll c j log k)"
  then show "monitor_job str_of c (JStr j) log = None"
    by (rule monitor_job_diverges)
next
  assume "monitor_job str_of c (JStr j) log = Some (x, log')"
  from monitor_job_Some[OF this]
  show "\<exists>k. (\<forall>i<k. keeps_polling (poll c j log i)) \<and> \<not> keeps_polling (poll c j log k) \<and>
           x = poll_result str_of (poll c j log k) \<and>
           log' = log @ replicate (Suc k) (GET (job_url c j))"
    by auto
qed

theorem monitor_job_unbounded_witness:
  "(\<forall>k. keeps_polling (poll (scripted_client [] job_pending) ''7'' [] k)) \<and>
   monitor_job str_of_text (scripted_client [] job_pending) (JStr ''7'') [] = None \<and>
   monitor_job str_of_text (scripted_client [job_pending] job_failure) (JStr ''7'') [] =
     Some (Inr (Some \<lparr>changed = Some False, failed = Some True,
             msg = Some ''Job 7 failed with: boom.'', resultId = None\<rparr>),
           [GET ''https://ovm/rest/Job/7'', GET ''https://ovm/rest/Job/7'']) \<and>
   (\<exists>k. \<not> keeps_polling (poll (scripted_client [job_pending] job_failure) ''7'' [] k) \<and>
        [GET ''https://ovm/rest/Job/7'', GET ''https://ovm/rest/Job/7''] =
          [] @ replicate (Suc k) (GET (job_url (scripted_client [job_pending] job_failure) ''7'')))"
proof -
  have forever: "\<forall>k. keeps_polling (poll (scripted_client [] job_pending) ''7'' [] k)"
    by (simp add: scripted_poll keeps_polling_def still_running_def job_pending_def)
  have "\<forall>i<1. keeps_polling (poll (scripted_client [job_pending] job_failure) ''7'' [] i)"
    by (simp add: scripted_poll keeps_polling_def still_running_def job_pending_def)
  moreover have "\<not> keeps_polling (poll (scripted_client [job_pending] job_failure) ''7'' [] 1)"
    by (simp add: scripted_poll keeps_polling_def still_running_def job_failure_def)
  ultimately have returned:
    "monitor_job str_of_text (scripted_client [job_pending] job_failure) (JStr ''7'') [] =
     Some (Inr (Some \<lparr>changed = Some False, failed = Some True,
             msg = Some ''Job 7 failed with: boom.'', resultId = None\<rparr>),
           [GET ''https://ovm/rest/Job/7'', GET ''https://ovm/rest/Job/7''])"
    using monitor_job_returns[of 1 "scripted_client [job_pending] job_failure" "''7''" "[]"
        str_of_text]
    by (simp add: scripted_poll poll_result_def monitor_job_body_def py_getitem2_def
        job_failure_def str_of_text_def scripted_job_url)
  from monitor_job_unbounded[of "scripted_client [] job_pending" "''7''" "[]" str_of_text]
  have never: "monitor_job str_of_text (scripted_client [] job_pending) (JStr ''7'') [] = None"
    using forever by simp
  from monitor_job_unbounded[of "scripted_client [job_pending] job_failure" "''7''" "[]"
      str_of_text "Inr (Some \<lparr>changed = Some False, failed = Some True,
           msg = Some ''Job 7 failed with: boom.'', resultId = None\<rparr>)"
      "[GET ''https://ovm/rest/Job/7'', GET ''https://ovm/rest/Job/7'']"] returned
  have "\<exists>k. \<not> keeps_polling (poll (scripted_client [job_pending] job_failure) ''7'' [] k) \<and>
        [GET ''https://ovm/rest/Job/7'', GET ''https://ovm/rest/Job/7''] =
          [] @ replicate (Suc k) (GET (job_url (scripted_client [job_pending] job_failure) ''7''))"
    by blast
  with forever never returned show ?thesis by blast
qed

text \<open>
  Claim C6 as stated counts only \<^verbatim>\<open>'SUCCESS'\<close> and \<^verbatim>\<open>'FAILURE'\<close> as ends of the polling.
  A manager whose every answer is a finished job in the state \<^verbatim>\<open>'ABORTED'\<close> never shows
  either, and the poller returns after the first poll.
\<close>

theorem monitor_job_aborted_returns:
  "monitor_job str_of_text (scripted_client [] job_aborted) (JStr ''7'') [] =
     Some (Inr None, [GET ''https://ovm/rest/Job/7''])"
proof -
  have "\<not> keeps_polling (poll (scripted_client [] job_aborted) ''7'' [] 0)"
    by (simp add: scripted_poll keeps_polling_def still_running_def job_aborted_def)
  from monitor_job_returns[OF _ this, of str_of_text] show ?thesis
    by (simp add: scripted_poll poll_result_def monitor_job_body_def job_aborted_def
        scripted_job_url)
qed

text \<open>
  Claim C7, amended. When the answer to a poll has \<^verbatim>\<open>summaryDone\<close> true and a
  \<^verbatim>\<open>jobRunState\<close> that is none of \<^verbatim>\<open>'SUCCESS'\<close>, \<^verbatim>\<open>'FAILURE'\<close> and \<^verbatim>\<open>'RUNNING'\<close>, the
  poller leaves the loop and returns \<^verbatim>\<open>None\<close>: no result record.
\<close>

theorem monitor_job_other_state:
  assumes "\<forall>i<k. keeps_polling (poll c j log i)"
    and "poll c j log k = Some job"
    and "py_getitem job ''summaryDone'' = Inr summaryDone"
    and "truthy summaryDone"
    and "py_getitem job ''jobRunState'' = Inr jobRunState"
    and "jobRunState \<noteq> JStr ''SUCCESS''"
    and "jobRunState \<noteq> JStr ''FAILURE''"
    and "jobRunState \<noteq> JStr ''RUNNING''"
  shows "monitor_job str_of c (JStr j) log =
     Some (Inr None, log @ replicate (Suc k) (GET (job_url c j)))"
proof -
  have body: "monitor_job_body str_of job = Inr Break"
    using assms(3-8) by (simp add: monitor_job_body_def py_eq_JStr)
  have "\<not> keeps_polling (poll c j log k)"
    using assms(2-5,8) by (simp add: keeps_polling_def still_running_def)
  from monitor_job_returns[OF assms(1) this, of str_of] show ?thesis
    by (simp add: assms(2) poll_result_def body)
qed

theorem monitor_job_other_state_witness:
  "keeps_polling (poll (scripted_client [job_running] job_aborted) ''7'' [] 0) \<and>
   poll (scripted_client [job_running] job_aborted) ''7'' [] 1 = Some job_aborted \<and>
   py_getitem job_aborted ''summaryDone'' = Inr (JBool True) \<and> truthy (JBool True) \<and>
   py_getitem job_aborted ''jobRunState'' = Inr (JStr ''ABORTED'') \<and>
   JStr ''ABORTED'' \<noteq> JStr ''SUCCESS'' \<and> JStr ''ABORTED'' \<noteq> JStr ''FAILURE'' \<and>
   JStr ''ABORTED'' \<noteq> JStr ''RUNNING'' \<and>
   monitor_job str_of_text (scripted_client [job_running] job_aborted) (JStr ''7'') [] =
     Some (Inr None, [GET ''https://ovm/rest/Job/7'', GET ''https://ovm/rest/Job/7''])"
proof -
  have a1: "\<forall>i<1. keeps_polling (poll (scripted_client [job_running] job_aborted) ''7'' [] i)"
    by (simp add: scripted_poll keeps_polling_def still_running_def job_running_def)
  have a2: "poll (scripted_client [job_running] job_aborted) ''7'' [] 1 = Some job_aborted"
    by (simp add: scripted_poll)
  have a3: "py_getitem job_aborted ''summaryDone'' = Inr (JBool True)"
    by (simp add: job_aborted_def)
  have a4: "truthy (JBool True)" by simp
  have a5: "py_getitem job_aborted ''jobRunState'' = Inr (JStr ''ABORTED'')"
    by (simp add: job_aborted_def)
  have a6: "JStr ''ABORTED'' \<noteq> JStr ''SUCCESS''" by simp
  have a7: "JStr ''ABORTED'' \<noteq> JStr ''FAILURE''" by simp
  have a8: "JStr ''ABORTED'' \<noteq> JStr ''RUNNING''" by simp
  show ?thesis
    using a1 a2 a3 a4 a5 monitor_job_other_state[OF a1 a2 a3 a4 a5 a6 a7 a8, of str_of_text]
    by (simp add: scripted_job_url)
qed

text \<open>
  Claim C7 as stated covers \<^verbatim>\<open>'RUNNING'\<close>, which is neither \<^verbatim>\<open>'SUCCESS'\<close> nor
  \<^verbatim>\<open>'FAILURE'\<close>. On an answer with \<^verbatim>\<open>summaryDone\<close> true and \<^verbatim>\<open>jobRunState\<close> \<^verbatim>\<open>'RUNNING'\<close>
  the poller does not exit: it polls again and here returns the record of the success
  that follows.
\<close>

theorem monitor_job_running_polls_again:
  "monitor_job str_of_text (scripted_client [job_running] job_success) (JStr ''7'') [] =
     Some (Inr (Some \<lparr>changed = Some True, failed = Some False, msg = None,
             resultId = Some (JObj [(''value'', JStr ''0004fb01'')])\<rparr>),
           [GET ''https://ovm/rest/Job/7'', GET ''https://ovm/rest/Job/7''])"
proof -
  have "\<forall>i<1. keeps_polling (poll (scripted_client [job_running] job_success) ''7'' [] i)"
    by (simp add: scripted_poll keeps_polling_def still_running_def job_running_def)
  moreover have "\<not> keeps_polling (poll (scripted_client [job_running] job_success) ''7'' [] 1)"
    by (simp add: scripted_poll keeps_polling_def still_running_def job_success_def)
  ultimately show ?thesis
    using monitor_job_returns[of 1 "scripted_client [job_running] job_success" "''7''" "[]"
        str_of_text]
    by (simp add: scripted_poll poll_result_def monitor_job_body_def job_success_def
        scripted_job_url)
qed

section \<open>Deleting a virtual machine\<close>

lemma get_id_for_name_log:
  "OVMRestClient_get_id_for_name c object_type object_name log = (x, log1) \<Longrightarrow>
   log1 = log @ [GET (listing_url c object_type)]"
  by (auto simp: OVMRestClient_get_id_for_name_def send_def listing_url_def
      split: option.splits sum.splits)

lemma poll_result_changed:
  "poll_result str_of (Some job) = Inr (Some r) \<Longrightarrow>
   changed r = Some True \<longleftrightarrow> py_getitem job ''jobRunState'' = Inr (JStr ''SUCCESS'')"
  by (auto simp: poll_result_def monitor_job_body_def py_eq_JStr
      split: sum.splits control.splits if_splits)

lemma monitor_job_iff:
  "monitor_job s c (JStr j) log = Some (x, log') \<longleftrightarrow>
     (\<exists>k. (\<forall>i<k. keeps_polling (poll c j log i)) \<and> \<not> keeps_polling (poll c j log k) \<and>
          x = poll_result s (poll c j log k) \<and>
          log' = log @ replicate (Suc k) (GET (job_url c j)))"
  using monitor_job_Some[of s c "JStr j" log "(x, log')"] monitor_job_returns[of _ c j log s]
  by auto

lemma delete_found:
  assumes "OVMVmHelper_get_id_for_name c name log = (Inr vm_id, log1)"
    and "vm_id \<noteq> JNull"
    and "py_getitem vm_id ''value'' = Inr (JStr v)"
    and "session c (log @ [GET (listing_url c ''Vm''), DELETE (object_url c ''Vm'' v)]) = Some reply"
    and "py_getitem2 reply ''id'' ''value'' = Inr (JStr j)"
  shows "OVMVmHelper_delete str_of c name log =
     monitor_job str_of c (JStr j)
       (log @ [GET (listing_url c ''Vm''), DELETE (object_url c ''Vm'' v)])"
proof -
  have "log1 = log @ [GET (listing_url c ''Vm'')]"
    using assms(1) by (simp add: OVMVmHelper_get_id_for_name_def get_id_for_name_log)
  then show ?thesis
    using assms
    by (simp add: OVMVmHelper_delete_def OVMRestClient_delete_def send_def object_url_def)
qed

text \<open>
  Claim C4. Let \<^verbatim>\<open>delete(name)\<close> look the name up. If no element is found it returns
  the not-found record, and the listing request is the only request it has sent: no
  DELETE. If an element with a string \<^verbatim>\<open>'value'\<close> is found and the DELETE is answered
  with a job reference, the requests sent are the listing request, one DELETE, and
  then polls of that job only; \<^verbatim>\<open>delete\<close> returns exactly when the polling ends, with
  what the last answer yields; and a returned record has \<^verbatim>\<open>changed\<close> true if and only if
  the \<^verbatim>\<open>jobRunState\<close> of that last answer is \<^verbatim>\<open>'SUCCESS'\<close>.
\<close>

theorem delete_result:
  assumes "OVMVmHelper_get_id_for_name c name log = (Inr vm_id, log1)"
  shows "(vm_id = JNull \<longrightarrow>
            OVMVmHelper_delete str_of c name log =
              Some (Inr (Some \<lparr>changed = Some False, failed = Some True,
                      msg = Some (''Could not find a vm named '' @ name @ ''.''),
                      resultId = None\<rparr>),
                    log @ [GET (listing_url c ''Vm'')])) \<and>
         (vm_id \<noteq> JNull \<longrightarrow> py_getitem vm_id ''value'' = Inr (JStr v) \<longrightarrow>
          session c (log @ [GET (listing_url c ''Vm''), DELETE (object_url c ''Vm'' v)]) =
            Some reply \<longrightarrow>
          py_getitem2 reply ''id'' ''value'' = Inr (JStr j) \<longrightarrow>
            (\<forall>x log'.
               OVMVmHelper_delete str_of c name log = Some (x, log') \<longleftrightarrow>
               (\<exists>k. (\<forall>i<k. keeps_polling
                         (poll c j (log @ [GET (listing_url c ''Vm''),
                            DELETE (object_url c ''Vm'' v)]) i)) \<and>
                    \<not> keeps_polling
                         (poll c j (log @ [GET (listing_url c ''Vm''),
                            DELETE (object_url c ''Vm'' v)]) k) \<and>
                    x = poll_result str_of
                         (poll c j (log @ [GET (listing_url c ''Vm''),
                            DELETE (object_url c ''Vm'' v)]) k) \<and>
                    log' = log @ [GET (listing_url c ''Vm''), DELETE (object_url c ''Vm'' v)]
                             @ replicate (Suc k) (GET (job_url c j)))) \<and>
            (\<forall>r log'.
               OVMVmHelper_delete str_of c name log = Some (Inr (Some r), log') \<longrightarrow>
               (changed r = Some True \<longleftrightarrow>
                (\<exists>k job.
                   log' = log @ [GET (listing_url c ''Vm''), DELETE (object_url c ''Vm'' v)]
                            @ replicate (Suc k) (GET (job_url c j)) \<and>
                   poll c j (log @ [GET (listing_url c ''Vm''),
                     DELETE (object_url c ''Vm'' v)]) k = Some job \<and>
                   py_getitem job ''jobRunState'' = Inr (JStr ''SUCCESS'')))))"
proof (intro conjI impI)
  assume "vm_id = JNull"
  moreover have "log1 = log @ [GET (listing_url c ''Vm'')]"
    using assms by (simp add: OVMVmHelper_get_id_for_name_def get_id_for_name_log)
  ultimately show "OVMVmHelper_delete str_of c name log =
      Some (Inr (Some \<lparr>changed = Some False, failed = Some True,
              msg = Some (''Could not find a vm named '' @ name @ ''.''),
              resultId = None\<rparr>),
            log @ [GET (listing_url c ''Vm'')])"
    using assms by (simp add: OVMVmHelper_delete_def vm_not_found_def)
next
  let ?L = "log @ [GET (listing_url c ''Vm''), DELETE (object_url c ''Vm'' v)]"
  assume found: "vm_id \<noteq> JNull" "py_getitem vm_id ''value'' = Inr (JStr v)"
    "session c ?L = Some reply" "py_getitem2 reply ''id'' ''value'' = Inr (JStr j)"
  have eq: "OVMVmHelper_delete str_of c name log = monitor_job str_of c (JStr j) ?L"
    by (rule delete_found[OF assms found])
  show "\<forall>x log'.
       OVMVmHelper_delete str_of c name log = Some (x, log') \<longleftrightarrow>
       (\<exists>k. (\<forall>i<k. keeps_polling (poll c j ?L i)) \<and> \<not> keeps_polling (poll c j ?L k) \<and>
            x = poll_result str_of (poll c j ?L k) \<and>
            log' = log @ [GET (listing_url c ''Vm''), DELETE (object_url c ''Vm'' v)]
                     @ replicate (Suc k) (GET (job_url c j)))"
    unfolding eq monitor_job_iff by simp
  show "\<forall>r log'.
       OVMVmHelper_delete str_of c name log = Some (Inr (Some r), log') \<longrightarrow>
       (changed r = Some True \<longleftrightarrow>
        (\<exists>k job.
           log' = log @ [GET (listing_url c ''Vm''), DELETE (object_url c ''Vm'' v)]
                    @ replicate (Suc k) (GET (job_url c j)) \<and>
           poll c j ?L k = Some job \<and>
           py_getitem job ''jobRunState'' = Inr (JStr ''SUCCESS'')))"
  proof (intro allI impI)
    fix r log'
    assume "OVMVmHelper_delete str_of c name log = Some (Inr (Some r), log')"
    then obtain k where k: "Inr (Some r) = poll_result str_of (poll c j ?L k)"
        "log' = ?L @ replicate (Suc k) (GET (job_url c j))"
      unfolding eq monitor_job_iff by auto
    then obtain job where job: "poll c j ?L k = Some job"
      by (cases "poll c j ?L k") (auto simp: poll_result_def)
    have iff: "changed r = Some True \<longleftrightarrow> py_getitem job ''jobRunState'' = Inr (JStr ''SUCCESS'')"
      using k(1) job poll_result_changed[of str_of job r] by simp
    show "changed r = Some True \<longleftrightarrow>
        (\<exists>k job.
           log' = log @ [GET (listing_url c ''Vm''), DELETE (object_url c ''Vm'' v)]
                    @ replicate (Suc k) (GET (job_url c j)) \<and>
           poll c j ?L k = Some job \<and>
           py_getitem job ''jobRunState'' = Inr (JStr ''SUCCESS''))"
    proof
      assume "changed r = Some True"
      with iff job k(2) show "\<exists>k job.
           log' = log @ [GET (listing_url c ''Vm''), DELETE (object_url c ''Vm'' v)]
                    @ replicate (Suc k) (GET (job_url c j)) \<and>
           poll c j ?L k = Some job \<and>
           py_getitem job ''jobRunState'' = Inr (JStr ''SUCCESS'')"
        by auto
    next
      assume "\<exists>k job.
           log' = log @ [GET (listing_url c ''Vm''), DELETE (object_url c ''Vm'' v)]
                    @ replicate (Suc k) (GET (job_url c j)) \<and>
           poll c j ?L k = Some job \<and>
           py_getitem job ''jobRunState'' = Inr (JStr ''SUCCESS'')"
      then obtain k' job' where k': "log' = ?L @ replicate (Suc k') (GET (job_url c j))"
          "poll c j ?L k' = Some job'" "py_getitem job' ''jobRunState'' = Inr (JStr ''SUCCESS'')"
        by auto
      from k'(1) k(2) have "length (replicate (Suc k') (GET (job_url c j))) =
          length (replicate (Suc k) (GET (job_url c j)))"
        by (metis same_append_eq)
      then have "k' = k" by simp
      with k' job iff show "changed r = Some True" by simp
    qed
  qed
qed


lemma scripted_poll_after:
  "poll (scripted_client replies final) j log k =
     Some (if length log + k < length replies then replies ! (length log + k) else final)"
  by (simp add: poll_def scripted_client_def scripted_def)

lemma scripted_session:
  "session (scripted_client replies final) log =
     Some (if length log - 1 < length replies then replies ! (length log - 1) else final)"
  by (simp add: scripted_client_def scripted_def)

lemma scripted_base_uri: "base_uri (scripted_client replies final) = ''https://ovm/rest''"
  by (simp add: scripted_client_def)

theorem delete_result_witness:
  "OVMVmHelper_get_id_for_name listing_client ''host02'' [] =
     (Inr JNull, [GET ''https://ovm/rest/Vm/id'']) \<and>
   OVMVmHelper_delete str_of_text listing_client ''host02'' [] =
     Some (Inr (Some \<lparr>changed = Some False, failed = Some True,
             msg = Some ''Could not find a vm named host02.'', resultId = None\<rparr>),
           [GET ''https://ovm/rest/Vm/id'']) \<and>
   OVMVmHelper_get_id_for_name
       (scripted_client [example_listing, job_started, job_pending] job_success) ''host01'' [] =
     (Inr (JObj [(''name'', JStr ''host01''), (''value'', JStr ''0004fb01'')]),
      [GET ''https://ovm/rest/Vm/id'']) \<and>
   JObj [(''name'', JStr ''host01''), (''value'', JStr ''0004fb01'')] \<noteq> JNull \<and>
   py_getitem (JObj [(''name'', JStr ''host01''), (''value'', JStr ''0004fb01'')]) ''value'' =
     Inr (JStr ''0004fb01'') \<and>
   session (scripted_client [example_listing, job_started, job_pending] job_success)
       [GET ''https://ovm/rest/Vm/id'', DELETE ''https://ovm/rest/Vm/0004fb01''] =
     Some job_started \<and>
   py_getitem2 job_started ''id'' ''value'' = Inr (JStr ''7'') \<and>
   OVMVmHelper_delete str_of_text
       (scripted_client [example_listing, job_started, job_pending] job_success) ''host01'' [] =
     Some (Inr (Some \<lparr>changed = Some True, failed = Some False, msg = None,
             resultId = Some (JObj [(''value'', JStr ''0004fb01'')])\<rparr>),
           [GET ''https://ovm/rest/Vm/id'', DELETE ''https://ovm/rest/Vm/0004fb01'',
            GET ''https://ovm/rest/Job/7'', GET ''https://ovm/rest/Job/7'']) \<and>
   poll (scripted_client [example_listing, job_started, job_pending] job_success) ''7''
       [GET ''https://ovm/rest/Vm/id'', DELETE ''https://ovm/rest/Vm/0004fb01''] 1 =
     Some job_success \<and>
   py_getitem job_success ''jobRunState'' = Inr (JStr ''SUCCESS'')"
proof -
  let ?c = "scripted_client [example_listing, job_started, job_pending] job_success"
  let ?vm = "JObj [(''name'', JStr ''host01''), (''value'', JStr ''0004fb01'')]"
  let ?L = "[GET ''https://ovm/rest/Vm/id'', DELETE ''https://ovm/rest/Vm/0004fb01'']"
  have urls: "listing_url ?c ''Vm'' = ''https://ovm/rest/Vm/id''"
    "object_url ?c ''Vm'' ''0004fb01'' = ''https://ovm/rest/Vm/0004fb01''"
    "listing_url listing_client ''Vm'' = ''https://ovm/rest/Vm/id''"
    by (simp_all add: listing_url_def object_url_def scripted_base_uri listing_client_def)
  have miss: "OVMVmHelper_get_id_for_name listing_client ''host02'' [] =
      (Inr JNull, [GET ''https://ovm/rest/Vm/id''])"
    by (simp add: OVMVmHelper_get_id_for_name_def OVMRestClient_get_id_for_name_def send_def
        listing_client_def example_listing_def)
  have hit: "OVMVmHelper_get_id_for_name ?c ''host01'' [] = (Inr ?vm, [GET ''https://ovm/rest/Vm/id''])"
    by (simp add: OVMVmHelper_get_id_for_name_def OVMRestClient_get_id_for_name_def send_def
        scripted_session scripted_base_uri example_listing_def)
  have ne: "?vm \<noteq> JNull" by simp
  have val: "py_getitem ?vm ''value'' = Inr (JStr ''0004fb01'')" by simp
  have reply: "session ?c ([] @ [GET (listing_url ?c ''Vm''), DELETE (object_url ?c ''Vm'' ''0004fb01'')]) =
      Some job_started"
    by (simp add: urls scripted_session)
  have jid: "py_getitem2 job_started ''id'' ''value'' = Inr (JStr ''7'')"
    by (simp add: job_started_def py_getitem2_def)
  have p0: "keeps_polling (poll ?c ''7'' ?L 0)"
    by (simp add: scripted_poll_after keeps_polling_def still_running_def job_pending_def)
  have p1: "poll ?c ''7'' ?L 1 = Some job_success"
    by (simp add: scripted_poll_after)
  have st: "py_getitem job_success ''jobRunState'' = Inr (JStr ''SUCCESS'')"
    by (simp add: job_success_def)
  have stop: "\<not> keeps_polling (poll ?c ''7'' ?L 1)"
    unfolding p1 by (simp add: keeps_polling_def still_running_def job_success_def)
  have res: "poll_result str_of_text (poll ?c ''7'' ?L 1) =
      Inr (Some \<lparr>changed = Some True, failed = Some False, msg = None,
             resultId = Some (JObj [(''value'', JStr ''0004fb01'')])\<rparr>)"
    unfolding p1 by (simp add: poll_result_def monitor_job_body_def job_success_def)
  have before: "\<forall>i<1. keeps_polling (poll ?c ''7'' ?L i)"
    using p0 by simp
  note found = delete_result[OF hit, of str_of_text "''0004fb01''" job_started "''7''",
      THEN conjunct2, rule_format, OF ne val reply jid]
  have deleted: "OVMVmHelper_delete str_of_text ?c ''host01'' [] =
      Some (Inr (Some \<lparr>changed = Some True, failed = Some False, msg = None,
              resultId = Some (JObj [(''value'', JStr ''0004fb01'')])\<rparr>),
            [GET ''https://ovm/rest/Vm/id'', DELETE ''https://ovm/rest/Vm/0004fb01'',
             GET ''https://ovm/rest/Job/7'', GET ''https://ovm/rest/Job/7''])"
    apply (rule found[THEN conjunct1, rule_format, THEN iffD2])
    apply (rule exI[of _ 1])
    using before stop res
    apply (simp add: urls scripted_job_url)
    done
  have absent: "OVMVmHelper_delete str_of_text listing_client ''host02'' [] =
      Some (Inr (Some \<lparr>changed = Some False, failed = Some True,
              msg = Some ''Could not find a vm named host02.'', resultId = None\<rparr>),
            [GET ''https://ovm/rest/Vm/id''])"
    using delete_result[OF miss, of str_of_text, THEN conjunct1] by (simp add: urls)
  show ?thesis
    using miss absent hit val reply jid deleted p1 st by (simp add: urls)
qed

section \<open>The dispatch of the entry point\<close>

lemma get_id_for_name_loop_truthy:
  "get_id_for_name_loop elements object_name = Inr v \<Longrightarrow> v \<noteq> JNull \<Longrightarrow> truthy v"
proof (induction elements)
  case Nil
  then show ?case by simp
next
  case (Cons element rest)
  show ?case
  proof (cases "py_getitem element ''name''")
    case (Inl e)
    with Cons.prems show ?thesis by simp
  next
    case (Inr n)
    show ?thesis
    proof (cases "py_eq n object_name")
      case True
      with Inr Cons.prems have "v = element" by simp
      with Inr show ?thesis by (cases element) (auto split: option.splits)
    next
      case False
      with Inr Cons show ?thesis by simp
    qed
  qed
qed

lemma get_id_for_name_truthy:
  "OVMRestClient_get_id_for_name c object_type object_name log = (Inr v, log1) \<Longrightarrow>
   truthy v \<longleftrightarrow> v \<noteq> JNull"
  by (auto simp: OVMRestClient_get_id_for_name_def
      split: prod.splits sum.splits dest: get_id_for_name_loop_truthy)

lemma main_lookups:
  assumes "argument_spec_accepts p" and "HAS_REQUESTS flags" and "HAS_JSON flags"
    and "HAS_TIME flags"
    and "main_limits p = Inr (memory_limit, cpu_count_limit)"
    and "OVMRestClient_get_id_for_name (main_client remote p) ''Repository''
           (JStr (p_repository p)) log = (Inr repository_id, log1)"
    and "OVMRestClient_get_id_for_name (main_client remote p) ''ServerPool''
           (JStr (p_server_pool p)) log1 = (Inr server_pool_id, log2)"
    and "OVMVmHelper_get_id_for_name (main_client remote p) (p_name p) log2 = (Inr vm, log3)"
  shows "main str_of flags remote p log =
     bind_run (main_dispatch str_of (main_client remote p) p memory_limit cpu_count_limit
         repository_id server_pool_id vm
         (Some \<lparr>changed = Some False, failed = Some False, msg = None, resultId = None\<rparr>) log3)
       (\<lambda>result log. Some (main_report result, log))"
  using assms by (simp add: main_def main_client_def)

text \<open>
  Claim C9. Let the parameters pass the checks, the three lookups return, and the
  lookup of the virtual machine find an element. With the state \<^verbatim>\<open>'scale'\<close> the
  dispatch reaches \<^verbatim>\<open>assert False\<close>: the invocation ends in an \<^verbatim>\<open>AssertionError\<close> after
  the three listing requests, with neither \<^verbatim>\<open>exit_json\<close> nor \<^verbatim>\<open>fail_json\<close>.
\<close>

theorem main_scale_asserts:
  assumes "argument_spec_accepts p" and "HAS_REQUESTS flags" and "HAS_JSON flags"
    and "HAS_TIME flags"
    and "main_limits p = Inr (memory_limit, cpu_count_limit)"
    and "OVMRestClient_get_id_for_name (main_client remote p) ''Repository''
           (JStr (p_repository p)) log = (Inr repository_id, log1)"
    and "OVMRestClient_get_id_for_name (main_client remote p) ''ServerPool''
           (JStr (p_server_pool p)) log1 = (Inr server_pool_id, log2)"
    and "OVMVmHelper_get_id_for_name (main_client remote p) (p_name p) log2 = (Inr vm, log3)"
    and "vm \<noteq> JNull"
    and "p_state p = ''scale''"
  shows "main str_of flags remote p log = Some (Inl AssertionError, log3)"
proof -
  have "truthy vm"
    using assms(8,9) get_id_for_name_truthy
    by (simp add: OVMVmHelper_get_id_for_name_def)
  then show ?thesis
    unfolding main_lookups[OF assms(1-8)]
    by (simp add: main_dispatch_def assms(10))
qed

lemma main_client_simps:
  "session (main_client remote p) = remote"
  "base_uri (main_client remote p) = p_ovm_host p @ ''/ovm/core/wsapi/rest''"
  by (simp_all add: main_client_def)

theorem main_scale_asserts_witness:
  "argument_spec_accepts (example_params\<lparr>p_state := ''scale''\<rparr>) \<and>
   HAS_REQUESTS all_imported \<and> HAS_JSON all_imported \<and> HAS_TIME all_imported \<and>
   main_limits (example_params\<lparr>p_state := ''scale''\<rparr>) = Inr (4096, 4) \<and>
   p_state (example_params\<lparr>p_state := ''scale''\<rparr>) = ''scale'' \<and>
   OVMVmHelper_get_id_for_name
     (main_client (scripted [repository_listing, server_pool_listing] example_listing)
        (example_params\<lparr>p_state := ''scale''\<rparr>))
     ''host01''
     [GET ''https://127.0.0.1:7002/ovm/core/wsapi/rest/Repository/id'',
      GET ''https://127.0.0.1:7002/ovm/core/wsapi/rest/ServerPool/id''] =
     (Inr (JObj [(''name'', JStr ''host01''), (''value'', JStr ''0004fb01'')]),
      [GET ''https://127.0.0.1:7002/ovm/core/wsapi/rest/Repository/id'',
       GET ''https://127.0.0.1:7002/ovm/core/wsapi/rest/ServerPool/id'',
       GET ''https://127.0.0.1:7002/ovm/core/wsapi/rest/Vm/id'']) \<and>
   main str_of_text all_imported (scripted [repository_listing, server_pool_listing] example_listing)
     (example_params\<lparr>p_state := ''scale''\<rparr>) [] =
     Some (Inl AssertionError,
       [GET ''https://127.0.0.1:7002/ovm/core/wsapi/rest/Repository/id'',
        GET ''https://127.0.0.1:7002/ovm/core/wsapi/rest/ServerPool/id'',
        GET ''https://127.0.0.1:7002/ovm/core/wsapi/rest/Vm/id''])"
proof -
  let ?p = "example_params\<lparr>p_state := ''scale''\<rparr>"
  let ?remote = "scripted [repository_listing, server_pool_listing] example_listing"
  let ?c = "main_client ?remote ?p"
  let ?r = "GET ''https://127.0.0.1:7002/ovm/core/wsapi/rest/Repository/id''"
  let ?s = "GET ''https://127.0.0.1:7002/ovm/core/wsapi/rest/ServerPool/id''"
  let ?v = "GET ''https://127.0.0.1:7002/ovm/core/wsapi/rest/Vm/id''"
  have a1: "argument_spec_accepts ?p"
    by (simp add: argument_spec_accepts_def example_params_def state_choices_def
        domain_type_choices_def mouse_type_choices_def keymap_name_choices_def)
  have a2: "HAS_REQUESTS all_imported" and a3: "HAS_JSON all_imported"
    and a4: "HAS_TIME all_imported"
    by (simp_all add: all_imported_def)
  have a5: "main_limits ?p = Inr (4096, 4)"
    by (simp add: main_limits_def example_params_def)
  have a6: "OVMRestClient_get_id_for_name ?c ''Repository'' (JStr (p_repository ?p)) [] =
      (Inr (JObj [(''name'', JStr ''Repo1''), (''value'', JStr ''0004fb03'')]), [?r])"
    by (simp add: OVMRestClient_get_id_for_name_def send_def main_client_simps scripted_def
        example_params_def repository_listing_def)
  have a7: "OVMRestClient_get_id_for_name ?c ''ServerPool'' (JStr (p_server_pool ?p)) [?r] =
      (Inr (JObj [(''name'', JStr ''Pool1''), (''value'', JStr ''0004fb04'')]), [?r, ?s])"
    by (simp add: OVMRestClient_get_id_for_name_def send_def main_client_simps scripted_def
        example_params_def server_pool_listing_def)
  have a8: "OVMVmHelper_get_id_for_name ?c (p_name ?p) [?r, ?s] =
      (Inr (JObj [(''name'', JStr ''host01''), (''value'', JStr ''0004fb01'')]), [?r, ?s, ?v])"
    by (simp add: OVMVmHelper_get_id_for_name_def OVMRestClient_get_id_for_name_def send_def
        main_client_simps scripted_def example_params_def example_listing_def)
  have a9: "JObj [(''name'', JStr ''host01''), (''value'', JStr ''0004fb01'')] \<noteq> JNull"
    by simp
  have a10: "p_state ?p = ''scale''" by simp
  have name: "p_name ?p = ''host01''" by (simp add: example_params_def)
  show ?thesis
    using a1 a2 a3 a4 a5 a10 a8[unfolded name]
      main_scale_asserts[OF a1 a2 a3 a4 a5 a6 a7 a8 a9 a10, of str_of_text]
    by simp
qed

section \<open>What the create path reports\<close>

lemma bind_run_cases:
  obtains (Diverges) "m = None"
  | (Raises) e log where "m = Some (Inl e, log)"
  | (Returns) x log where "m = Some (Inr x, log)"
proof (cases m)
  case None
  then show ?thesis by (rule Diverges)
next
  case (Some a)
  then show ?thesis
    by (cases a; cases "fst a") (auto intro: Raises Returns)
qed

lemma bind_run_assoc:
  "bind_run (bind_run m f) g = bind_run m (\<lambda>x log. bind_run (f x log) g)"
  by (cases m rule: bind_run_cases) simp_all

lemma bind_run_return: "bind_run m (\<lambda>x log. Some (Inr x, log)) = m"
  by (cases m rule: bind_run_cases) simp_all

lemma bind_run_Some_Inr:
  "bind_run m k = Some (Inr y, log') \<Longrightarrow> \<exists>x log. m = Some (Inr x, log) \<and> k x log = Some (Inr y, log')"
  by (cases m rule: bind_run_cases) simp_all

lemma loops_Nil:
  "virtual_nics_loop str_of c name [] = (\<lambda>result log. Some (Inr result, log))"
  "disk_mappings_loop str_of c name [] = (\<lambda>result log. Some (Inr result, log))"
  by (intro ext, simp)+

lemma virtual_nics_loop_snoc:
  "virtual_nics_loop str_of c name (xs @ [x]) result log =
     bind_run (virtual_nics_loop str_of c name xs result log) (\<lambda>result log.
     bind_run (Some (py_getitem x ''network'', log)) (\<lambda>network log.
     bind_run (Some (py_getitem x ''mac_address'', log)) (\<lambda>mac_address log.
     OVMVmHelper_create_virtualnic str_of c name network mac_address log)))"
proof (induction xs arbitrary: result log)
  case Nil
  show ?case by (simp add: loops_Nil bind_run_return)
next
  case (Cons y ys)
  have "virtual_nics_loop str_of c name (ys @ [x]) =
      (\<lambda>result log.
        bind_run (virtual_nics_loop str_of c name ys result log) (\<lambda>result log.
        bind_run (Some (py_getitem x ''network'', log)) (\<lambda>network log.
        bind_run (Some (py_getitem x ''mac_address'', log)) (\<lambda>mac_address log.
        OVMVmHelper_create_virtualnic str_of c name network mac_address log))))"
    by (intro ext) (rule Cons.IH)
  then show ?case by (simp add: bind_run_assoc)
qed

lemma disk_mappings_loop_snoc:
  "disk_mappings_loop str_of c name (xs @ [x]) result log =
     bind_run (disk_mappings_loop str_of c name xs result log) (\<lambda>result log.
     bind_run (Some (py_getitem x ''slot'', log)) (\<lambda>slot log.
     bind_run (Some (py_getitem x ''virtual_disk'', log)) (\<lambda>virtual_disk log.
     OVMVmHelper_create_diskmapping str_of c name slot virtual_disk log)))"
proof (induction xs arbitrary: result log)
  case Nil
  show ?case by (simp add: loops_Nil bind_run_return)
next
  case (Cons y ys)
  have "disk_mappings_loop str_of c name (ys @ [x]) =
      (\<lambda>result log.
        bind_run (disk_mappings_loop str_of c name ys result log) (\<lambda>result log.
        bind_run (Some (py_getitem x ''slot'', log)) (\<lambda>slot log.
        bind_run (Some (py_getitem x ''virtual_disk'', log)) (\<lambda>virtual_disk log.
        OVMVmHelper_create_diskmapping str_of c name slot virtual_disk log))))"
    by (intro ext) (rule Cons.IH)
  then show ?case by (simp add: bind_run_assoc)
qed

lemma virtual_nics_loop_last:
  assumes "virtual_nics_loop str_of c name xs result log = Some (Inr result', log')"
    and "xs \<noteq> []"
  shows "\<exists>before log1 network mac_address.
     virtual_nics_loop str_of c name (butlast xs) result log = Some (Inr before, log1) \<and>
     py_getitem (last xs) ''network'' = Inr network \<and>
     py_getitem (last xs) ''mac_address'' = Inr mac_address \<and>
     OVMVmHelper_create_virtualnic str_of c name network mac_address log1 =
       Some (Inr result', log')"
proof -
  from assms(2) have xs: "xs = butlast xs @ [last xs]" by simp
  from assms(1) have "virtual_nics_loop str_of c name (butlast xs @ [last xs]) result log =
      Some (Inr result', log')"
    using xs by simp
  then show ?thesis
    unfolding virtual_nics_loop_snoc
    by (auto dest!: bind_run_Some_Inr)
qed

lemma disk_mappings_loop_last:
  assumes "disk_mappings_loop str_of c name xs result log = Some (Inr result', log')"
    and "xs \<noteq> []"
  shows "\<exists>before log1 slot virtual_disk.
     disk_mappings_loop str_of c name (butlast xs) result log = Some (Inr before, log1) \<and>
     py_getitem (last xs) ''slot'' = Inr slot \<and>
     py_getitem (last xs) ''virtual_disk'' = Inr virtual_disk \<and>
     OVMVmHelper_create_diskmapping str_of c name slot virtual_disk log1 =
       Some (Inr result', log')"
proof -
  from assms(2) have xs: "xs = butlast xs @ [last xs]" by simp
  from assms(1) have "disk_mappings_loop str_of c name (butlast xs @ [last xs]) result log =
      Some (Inr result', log')"
    using xs by simp
  then show ?thesis
    unfolding disk_mappings_loop_snoc
    by (auto dest!: bind_run_Some_Inr)
qed

lemma monitor_job_record:
  assumes "monitor_job str_of c job_id log = Some (Inr (Some r), log')"
  shows "failed r = Some True \<or> failed r = Some False"
proof -
  from monitor_job_Some[OF assms] obtain j k where
    "Inr (Some r) = poll_result str_of (poll c j log k)"
    by auto
  then show ?thesis
    by (auto simp: poll_result_def monitor_job_body_def
        split: option.splits sum.splits control.splits if_splits)
qed

lemma state_record:
  assumes "OVMVmHelper_state str_of c name state log = Some (Inr (Some r), log')"
  shows "failed r = Some True \<or> failed r = Some False"
  using assms unfolding OVMVmHelper_state_def
  by (auto dest!: bind_run_Some_Inr monitor_job_record simp: vm_not_found_def split: if_splits)

text \<open>
  Claim C10. On the create path (the parameters pass the checks, the lookup of the
  virtual machine returns \<^verbatim>\<open>None\<close>, the state is \<^verbatim>\<open>'present'\<close>) let the creation,
  the two loops and the start return, the start with a record. The variable
  \<^verbatim>\<open>result\<close> holds after the loop over \<^verbatim>\<open>virtual_nics\<close> what the attachment of the
  last interface returned, and after the loop over \<^verbatim>\<open>disk_mappings\<close> what the
  attachment of the last mapping returned; an empty list leaves it as it was. The
  invocation then ends with the record of the start and with nothing else: in
  \<^verbatim>\<open>fail_json\<close> when that record has failed, in \<^verbatim>\<open>exit_json\<close> when it has not,
  whatever the creation and the attachments returned.
\<close>

theorem create_path_reports_start:
  assumes "argument_spec_accepts p" and "HAS_REQUESTS flags" and "HAS_JSON flags"
    and "HAS_TIME flags"
    and "main_limits p = Inr (memory_limit, cpu_count_limit)"
    and "OVMRestClient_get_id_for_name (main_client remote p) ''Repository''
           (JStr (p_repository p)) log = (Inr repository_id, log1)"
    and "OVMRestClient_get_id_for_name (main_client remote p) ''ServerPool''
           (JStr (p_server_pool p)) log1 = (Inr server_pool_id, log2)"
    and "OVMVmHelper_get_id_for_name (main_client remote p) (p_name p) log2 = (Inr JNull, log3)"
    and "p_state p = ''present''"
    and "OVMVmHelper_create str_of (main_client remote p)
           (vm_data p memory_limit cpu_count_limit repository_id server_pool_id) log3 =
         Some (Inr created, log4)"
    and "p_virtual_nics p = Some virtual_nics"
    and "virtual_nics_loop str_of (main_client remote p) (p_name p) virtual_nics created log4 =
         Some (Inr attached, log5)"
    and "p_disk_mappings p = Some disk_mappings"
    and "disk_mappings_loop str_of (main_client remote p) (p_name p) disk_mappings attached log5 =
         Some (Inr mapped, log6)"
    and "OVMVmHelper_start str_of (main_client remote p) (p_name p) log6 =
         Some (Inr (Some started), log7)"
  shows "main str_of flags remote p log =
           Some (Inr (if failed started = Some True then Fail_json started
                      else Exit_json started), log7) \<and>
         (failed started = Some True \<or> failed started = Some False) \<and>
         (virtual_nics = [] \<longrightarrow> attached = created) \<and>
         (virtual_nics \<noteq> [] \<longrightarrow>
            (\<exists>before log' network mac_address.
               virtual_nics_loop str_of (main_client remote p) (p_name p)
                 (butlast virtual_nics) created log4 = Some (Inr before, log') \<and>
               py_getitem (last virtual_nics) ''network'' = Inr network \<and>
               py_getitem (last virtual_nics) ''mac_address'' = Inr mac_address \<and>
               OVMVmHelper_create_virtualnic str_of (main_client remote p) (p_name p)
                 network mac_address log' = Some (Inr attached, log5))) \<and>
         (disk_mappings = [] \<longrightarrow> mapped = attached) \<and>
         (disk_mappings \<noteq> [] \<longrightarrow>
            (\<exists>before log' slot virtual_disk.
               disk_mappings_loop str_of (main_client remote p) (p_name p)
                 (butlast disk_mappings) attached log5 = Some (Inr before, log') \<and>
               py_getitem (last disk_mappings) ''slot'' = Inr slot \<and>
               py_getitem (last disk_mappings) ''virtual_disk'' = Inr virtual_disk \<and>
               OVMVmHelper_create_diskmapping str_of (main_client remote p) (p_name p)
                 slot virtual_disk log' = Some (Inr mapped, log6)))"
proof (intro conjI impI)
  have outcome: "failed started = Some True \<or> failed started = Some False"
    using assms(15) unfolding OVMVmHelper_start_def by (rule state_record)
  then show "failed started = Some True \<or> failed started = Some False" .
  have "main str_of flags remote p log = Some (main_report (Some started), log7)"
    unfolding main_lookups[OF assms(1-8)]
    by (simp add: main_dispatch_def assms(9-15) iter_param_def)
  with outcome show "main str_of flags remote p log =
      Some (Inr (if failed started = Some True then Fail_json started
                 else Exit_json started), log7)"
    by (auto simp: main_report_def)
next
  assume "virtual_nics = []"
  with assms(12) show "attached = created" by simp
next
  assume "virtual_nics \<noteq> []"
  with assms(12) show "\<exists>before log' network mac_address.
      virtual_nics_loop str_of (main_client remote p) (p_name p)
        (butlast virtual_nics) created log4 = Some (Inr before, log') \<and>
      py_getitem (last virtual_nics) ''network'' = Inr network \<and>
      py_getitem (last virtual_nics) ''mac_address'' = Inr mac_address \<and>
      OVMVmHelper_create_virtualnic str_of (main_client remote p) (p_name p)
        network mac_address log' = Some (Inr attached, log5)"
    by (rule virtual_nics_loop_last)
next
  assume "disk_mappings = []"
  with assms(14) show "mapped = attached" by simp
next
  assume "disk_mappings \<noteq> []"
  with assms(14) show "\<exists>before log' slot virtual_disk.
      disk_mappings_loop str_of (main_client remote p) (p_name p)
        (butlast disk_mappings) attached log5 = Some (Inr before, log') \<and>
      py_getitem (last disk_mappings) ''slot'' = Inr slot \<and>
      py_getitem (last disk_mappings) ''virtual_disk'' = Inr virtual_disk \<and>
      OVMVmHelper_create_diskmapping str_of (main_client remote p) (p_name p)
        slot virtual_disk log' = Some (Inr mapped, log6)"
    by (rule disk_mappings_loop_last)
qed

theorem create_path_reports_start_witness:
  "virtual_nics_loop str_of_text (main_client (scripted failed_attach_run job_success) full_params)
     ''host01'' example_nics
     (Some \<lparr>changed = Some True, failed = Some False, msg = None,
        resultId = Some (JObj [(''value'', JStr ''0004fb01'')])\<rparr>)
     [GET ''https://127.0.0.1:7002/ovm/core/wsapi/rest/Repository/id'',
      GET ''https://127.0.0.1:7002/ovm/core/wsapi/rest/ServerPool/id'',
      GET ''https://127.0.0.1:7002/ovm/core/wsapi/rest/Vm/id'',
      POST ''https://127.0.0.1:7002/ovm/core/wsapi/rest/Vm''
        (vm_data full_params 4096 4
          (JObj [(''name'', JStr ''Repo1''), (''value'', JStr ''0004fb03'')])
          (JObj [(''name'', JStr ''Pool1''), (''value'', JStr ''0004fb04'')])),
      GET ''https://127.0.0.1:7002/ovm/core/wsapi/rest/Job/7''] =
     Some (Inr (Some \<lparr>changed = Some False, failed = Some True,
             msg = Some ''Could not find a network named 10.20.20.0.'', resultId = None\<rparr>),
       [GET ''https://127.0.0.1:7002/ovm/core/wsapi/rest/Repository/id'',
        GET ''https://127.0.0.1:7002/ovm/core/wsapi/rest/ServerPool/id'',
        GET ''https://127.0.0.1:7002/ovm/core/wsapi/rest/Vm/id'',
        POST ''https://127.0.0.1:7002/ovm/core/wsapi/rest/Vm''
          (vm_data full_params 4096 4
            (JObj [(''name'', JStr ''Repo1''), (''value'', JStr ''0004fb03'')])
            (JObj [(''name'', JStr ''Pool1''), (''value'', JStr ''0004fb04'')])),
        GET ''https://127.0.0.1:7002/ovm/core/wsapi/rest/Job/7'',
        GET ''https://127.0.0.1:7002/ovm/core/wsapi/rest/Vm/id'',
        GET ''https://127.0.0.1:7002/ovm/core/wsapi/rest/Network/id'',
        POST ''https://127.0.0.1:7002/ovm/core/wsapi/rest/Vm/0004fb01/VirtualNic''
          (JObj [(''name'', JStr ''00:21:f6:00:00:01''), (''macAddress'', JStr ''00:21:f6:00:00:01''),
                 (''networkId'', JObj [(''name'', JStr ''10.20.20.0''), (''value'', JStr ''0a141400'')])]),
        GET ''https://127.0.0.1:7002/ovm/core/wsapi/rest/Job/7'',
        GET ''https://127.0.0.1:7002/ovm/core/wsapi/rest/Vm/id'',
        GET ''https://127.0.0.1:7002/ovm/core/wsapi/rest/Network/id'']) \<and>
   main str_of_text all_imported (scripted failed_attach_run job_success) full_params [] =
     Some (Inr (Exit_json \<lparr>changed = Some True, failed = Some False, msg = None,
             resultId = Some (JObj [(''value'', JStr ''0004fb01'')])\<rparr>),
       [GET ''https://127.0.0.1:7002/ovm/core/wsapi/rest/Repository/id'',
        GET ''https://127.0.0.1:7002/ovm/core/wsapi/rest/ServerPool/id'',
        GET ''https://127.0.0.1:7002/ovm/core/wsapi/rest/Vm/id'',
        POST ''https://127.0.0.1:7002/ovm/core/wsapi/rest/Vm''
          (vm_data full_params 4096 4
            (JObj [(''name'', JStr ''Repo1''), (''value'', JStr ''0004fb03'')])
            (JObj [(''name'', JStr ''Pool1''), (''value'', JStr ''0004fb04'')])),
        GET ''https://127.0.0.1:7002/ovm/core/wsapi/rest/Job/7'',
        GET ''https://127.0.0.1:7002/ovm/core/wsapi/rest/Vm/id'',
        GET ''https://127.0.0.1:7002/ovm/core/wsapi/rest/Network/id'',
        POST ''https://127.0.0.1:7002/ovm/core/wsapi/rest/Vm/0004fb01/VirtualNic''
          (JObj [(''name'', JStr ''00:21:f6:00:00:01''), (''macAddress'', JStr ''00:21:f6:00:00:01''),
                 (''networkId'', JObj [(''name'', JStr ''10.20.20.0''), (''value'', JStr ''0a141400'')])]),
        GET ''https://127.0.0.1:7002/ovm/core/wsapi/rest/Job/7'',
        GET ''https://127.0.0.1:7002/ovm/core/wsapi/rest/Vm/id'',
        GET ''https://127.0.0.1:7002/ovm/core/wsapi/rest/Network/id'',
        GET ''https://127.0.0.1:7002/ovm/core/wsapi/rest/Vm/id'',
        GET ''https://127.0.0.1:7002/ovm/core/wsapi/rest/VirtualDisk/id'',
        GET ''https://127.0.0.1:7002/ovm/core/wsapi/rest/Vm/id'',
        PUT ''https://127.0.0.1:7002/ovm/core/wsapi/rest/Vm/0004fb01/start'' (JObj []),
        GET ''https://127.0.0.1:7002/ovm/core/wsapi/rest/Job/7'']) \<and>
   main str_of_text all_imported (scripted failed_create_run (JList [])) example_params [] =
     Some (Inr (Fail_json \<lparr>changed = Some False, failed = Some True,
             msg = Some ''Could not find a vm named host01.'', resultId = None\<rparr>),
       [GET ''https://127.0.0.1:7002/ovm/core/wsapi/rest/Repository/id'',
        GET ''https://127.0.0.1:7002/ovm/core/wsapi/rest/ServerPool/id'',
        GET ''https://127.0.0.1:7002/ovm/core/wsapi/rest/Vm/id'',
        POST ''https://127.0.0.1:7002/ovm/core/wsapi/rest/Vm''
          (vm_data example_params 4096 4
            (JObj [(''name'', JStr ''Repo1''), (''value'', JStr ''0004fb03'')])
            (JObj [(''name'', JStr ''Pool1''), (''value'', JStr ''0004fb04'')])),
        GET ''https://127.0.0.1:7002/ovm/core/wsapi/rest/Job/7'',
        GET ''https://127.0.0.1:7002/ovm/core/wsapi/rest/Vm/id''])"
proof -
  let ?B = "''https://127.0.0.1:7002/ovm/core/wsapi/rest''"
  let ?rid = "JObj [(''name'', JStr ''Repo1''), (''value'', JStr ''0004fb03'')]"
  let ?sid = "JObj [(''name'', JStr ''Pool1''), (''value'', JStr ''0004fb04'')]"
  let ?ok = "\<lparr>changed = Some True, failed = Some False, msg = None,
        resultId = Some (JObj [(''value'', JStr ''0004fb01'')])\<rparr>"
  let ?bad = "\<lparr>changed = Some False, failed = Some True,
        msg = Some ''Job 7 failed with: boom.'', resultId = None\<rparr>"
  let ?no_network = "\<lparr>changed = Some False, failed = Some True,
        msg = Some ''Could not find a network named 10.20.20.0.'', resultId = None\<rparr>"
  let ?no_disk = "\<lparr>changed = Some False, failed = Some True,
        msg = Some ''Could not find a virtual_disk named host1_root.'', resultId = None\<rparr>"
  let ?no_vm = "\<lparr>changed = Some False, failed = Some True,
        msg = Some ''Could not find a vm named host01.'', resultId = None\<rparr>"
  let ?l1 = "[GET (?B @ ''/Repository/id'')]"
  let ?l2 = "?l1 @ [GET (?B @ ''/ServerPool/id'')]"
  let ?l3 = "?l2 @ [GET (?B @ ''/Vm/id'')]"
  have flags: "HAS_REQUESTS all_imported" "HAS_JSON all_imported" "HAS_TIME all_imported"
    by (simp_all add: all_imported_def)
  let ?p = full_params
  let ?c = "main_client (scripted failed_attach_run job_success) ?p"
  let ?l4 = "?l3 @ [POST (?B @ ''/Vm'') (vm_data ?p 4096 4 ?rid ?sid), GET (?B @ ''/Job/7'')]"
  let ?l5 = "?l4 @ [GET (?B @ ''/Vm/id''), GET (?B @ ''/Network/id''),
      POST (?B @ ''/Vm/0004fb01/VirtualNic'')
        (JObj [(''name'', JStr ''00:21:f6:00:00:01''), (''macAddress'', JStr ''00:21:f6:00:00:01''),
               (''networkId'', JObj [(''name'', JStr ''10.20.20.0''), (''value'', JStr ''0a141400'')])]),
      GET (?B @ ''/Job/7''), GET (?B @ ''/Vm/id''), GET (?B @ ''/Network/id'')]"
  let ?l6 = "?l5 @ [GET (?B @ ''/Vm/id''), GET (?B @ ''/VirtualDisk/id'')]"
  let ?l7 = "?l6 @ [GET (?B @ ''/Vm/id''), PUT (?B @ ''/Vm/0004fb01/start'') (JObj []),
      GET (?B @ ''/Job/7'')]"
  have a1: "argument_spec_accepts ?p" by code_simp
  have a5: "main_limits ?p = Inr (4096, 4)" by code_simp
  have a6: "OVMRestClient_get_id_for_name ?c ''Repository'' (JStr (p_repository ?p)) [] =
      (Inr ?rid, ?l1)" by code_simp
  have a7: "OVMRestClient_get_id_for_name ?c ''ServerPool'' (JStr (p_server_pool ?p)) ?l1 =
      (Inr ?sid, ?l2)" by code_simp
  have a8: "OVMVmHelper_get_id_for_name ?c (p_name ?p) ?l2 = (Inr JNull, ?l3)" by code_simp
  have a9: "p_state ?p = ''present''" by code_simp
  have a10: "OVMVmHelper_create str_of_text ?c (vm_data ?p 4096 4 ?rid ?sid) ?l3 =
      Some (Inr (Some ?ok), ?l4)" by code_simp
  have a11: "p_virtual_nics ?p = Some example_nics" by (simp add: full_params_def)
  have a12: "virtual_nics_loop str_of_text ?c (p_name ?p) example_nics (Some ?ok) ?l4 =
      Some (Inr (Some ?no_network), ?l5)" by code_simp
  have a13: "p_disk_mappings ?p = Some example_disks" by (simp add: full_params_def)
  have a14: "disk_mappings_loop str_of_text ?c (p_name ?p) example_disks (Some ?no_network) ?l5 =
      Some (Inr (Some ?no_disk), ?l6)" by code_simp
  have a15: "OVMVmHelper_start str_of_text ?c (p_name ?p) ?l6 = Some (Inr (Some ?ok), ?l7)"
    by code_simp
  have name: "p_name ?p = ''host01''" by code_simp
  from create_path_reports_start[OF a1 flags a5 a6 a7 a8 a9 a10 a11 a12 a13 a14 a15,
      THEN conjunct1]
  have succeeded: "main str_of_text all_imported (scripted failed_attach_run job_success) ?p [] =
      Some (Inr (Exit_json ?ok), ?l7)"
    by simp
  let ?q = example_params
  let ?d = "main_client (scripted failed_create_run (JList [])) ?q"
  let ?m4 = "?l3 @ [POST (?B @ ''/Vm'') (vm_data ?q 4096 4 ?rid ?sid), GET (?B @ ''/Job/7'')]"
  let ?m7 = "?m4 @ [GET (?B @ ''/Vm/id'')]"
  have b1: "argument_spec_accepts ?q" by code_simp
  have b5: "main_limits ?q = Inr (4096, 4)" by code_simp
  have b6: "OVMRestClient_get_id_for_name ?d ''Repository'' (JStr (p_repository ?q)) [] =
      (Inr ?rid, ?l1)" by code_simp
  have b7: "OVMRestClient_get_id_for_name ?d ''ServerPool'' (JStr (p_server_pool ?q)) ?l1 =
      (Inr ?sid, ?l2)" by code_simp
  have b8: "OVMVmHelper_get_id_for_name ?d (p_name ?q) ?l2 = (Inr JNull, ?l3)" by code_simp
  have b9: "p_state ?q = ''present''" by code_simp
  have b10: "OVMVmHelper_create str_of_text ?d (vm_data ?q 4096 4 ?rid ?sid) ?l3 =
      Some (Inr (Some ?bad), ?m4)" by code_simp
  have b11: "p_virtual_nics ?q = Some []" by code_simp
  have b12: "virtual_nics_loop str_of_text ?d (p_name ?q) [] (Some ?bad) ?m4 =
      Some (Inr (Some ?bad), ?m4)" by simp
  have b13: "p_disk_mappings ?q = Some []" by code_simp
  have b14: "disk_mappings_loop str_of_text ?d (p_name ?q) [] (Some ?bad) ?m4 =
      Some (Inr (Some ?bad), ?m4)" by simp
  have b15: "OVMVmHelper_start str_of_text ?d (p_name ?q) ?m4 = Some (Inr (Some ?no_vm), ?m7)"
    by code_simp
  from create_path_reports_start[OF b1 flags b5 b6 b7 b8 b9 b10 b11 b12 b13 b14 b15,
      THEN conjunct1]
  have fails: "main str_of_text all_imported (scripted failed_create_run (JList [])) ?q [] =
      Some (Inr (Fail_json ?no_vm), ?m7)"
    by simp
  from a12[unfolded name] succeeded fails show ?thesis by simp
qed

section \<open>The create path\<close>








































end
